theory Spec2Isabelle
  imports Complex_Main "HOL-Library.Word" "HOL-Library.Sublist" "HOL-Library.Multiset"
begin

section \<open>JavaScript strings\<close>

text \<open>
  A JavaScript string is a sequence of UTF-16 code units and \<open>length\<close> counts code units.
  String literals of the source are written \<open>js ''...''\<close>; the two emoji of the stoplist
  are written as their surrogate pairs.
\<close>

type_synonym code_unit = "16 word"
type_synonym jsstring = "code_unit list"

definition js :: "string \<Rightarrow> jsstring" where
  "js s = map of_char s"

text \<open>
  \<open>String.prototype.toLowerCase\<close> is a built-in driven by the Unicode case tables. The
  functions of the repository that call it take it as the parameter \<open>lc\<close>, so that every
  theorem below holds for whatever the engine's lowercasing does. \<open>ascii_toLowerCase\<close>
  is its restriction to the ASCII letters, used to run the definitions on concrete texts.
\<close>

definition ascii_toLowerCase :: "jsstring \<Rightarrow> jsstring" where
  "ascii_toLowerCase s = map (\<lambda>c. if 0x41 \<le> c \<and> c \<le> 0x5A then c + 0x20 else c) s"

text \<open>The character class \<open>[a-z]\<close>.\<close>

definition is_a_z :: "code_unit \<Rightarrow> bool" where
  "is_a_z c = (0x61 \<le> c \<and> c \<le> 0x7A)"

section \<open>JavaScript numbers\<close>

text \<open>
  A number is NaN, an infinity or a finite value. A finite value is kept as the exact
  rational it denotes, and \<open>(rating - 3) / 2\<close> is computed exactly, where the engine
  computes in binary64 and returns the nearest double: for the rating \<open>4.1\<close> the engine
  yields \<open>0.5499999999999998\<close> and the model \<open>11 / 20\<close>. The properties below only compare
  numbers with the bounds 0, 1, -1, 2, 4 and 5, which are doubles, and rounding to
  nearest is monotone, so that a value that lies between two of these bounds in the
  model does so in the engine. The one place where the rounding decides the outcome,
  the product \<open>m * 0.7\<close> of the similarity rule, is modelled bit for bit further down.
\<close>

datatype jsnum = NaN | NegInf | Fin rat | PosInf

text \<open>Truthiness of a number: \<open>0\<close> and \<open>NaN\<close> are falsy.\<close>

fun truthy_num :: "jsnum \<Rightarrow> bool" where
  "truthy_num NaN = False"
| "truthy_num (Fin r) = (r \<noteq> 0)"
| "truthy_num _ = True"

text \<open>\<open>a <= b\<close> on numbers; every comparison with NaN is false.\<close>

fun num_le :: "jsnum \<Rightarrow> jsnum \<Rightarrow> bool" where
  "num_le NaN _ = False"
| "num_le _ NaN = False"
| "num_le NegInf _ = True"
| "num_le _ PosInf = True"
| "num_le (Fin a) (Fin b) = (a \<le> b)"
| "num_le _ _ = False"

fun Math_min :: "jsnum \<Rightarrow> jsnum \<Rightarrow> jsnum" where
  "Math_min NaN _ = NaN"
| "Math_min _ NaN = NaN"
| "Math_min a b = (if num_le a b then a else b)"

fun Math_max :: "jsnum \<Rightarrow> jsnum \<Rightarrow> jsnum" where
  "Math_max NaN _ = NaN"
| "Math_max _ NaN = NaN"
| "Math_max a b = (if num_le a b then b else a)"

text \<open>\<open>(x - a) / b\<close> for finite \<open>a\<close> and positive finite \<open>b\<close>.\<close>

fun sub_div :: "jsnum \<Rightarrow> rat \<Rightarrow> rat \<Rightarrow> jsnum" where
  "sub_div (Fin r) a b = Fin ((r - a) / b)"
| "sub_div x a b = x"

text \<open>A number lies in the closed interval \<open>[lo, hi]\<close>.\<close>

definition in_range :: "rat \<Rightarrow> rat \<Rightarrow> jsnum \<Rightarrow> bool" where
  "in_range lo hi x = (case x of Fin r \<Rightarrow> lo \<le> r \<and> r \<le> hi | _ \<Rightarrow> False)"

section \<open>The ingestion filter\<close>

text \<open>
  A row of the \<open>reviews\<close> table as the analysis routes select it:
  \<open>id, original_text, rating, review_analyses!left(id)\<close>. A column that is
  \<open>null\<close> or \<open>undefined\<close> is \<open>None\<close>.
\<close>

record review_text =
  original_text :: "jsstring option"
  rating :: "jsnum option"

record review_row = review_text +
  review_id :: jsstring
  review_analyses :: "jsstring list option"

definition spamPatterns :: "jsstring list" where
  "spamPatterns =
     [js ''good'', js ''bad'', js ''ok'', js ''nice'', js ''great'', js ''terrible'',
      js ''awful'', js ''thumbs up'', [0xD83D, 0xDC4D], [0xD83D, 0xDC4E], js ''like'',
      js ''dislike'']"

text \<open>\<open>review.original_text?.toLowerCase() || ''\<close>\<close>

definition lowered_text :: "(jsstring \<Rightarrow> jsstring) \<Rightarrow> 'a review_text_scheme \<Rightarrow> jsstring" where
  "lowered_text lc review =
     (case original_text review of
        None \<Rightarrow> []
      | Some t \<Rightarrow> (if lc t = [] then [] else lc t))"

text \<open>The callback of \<open>reviews.filter\<close> in \<open>filterReviewsForAnalysis\<close>.\<close>

definition keep_review :: "(jsstring \<Rightarrow> jsstring) \<Rightarrow> 'a review_text_scheme \<Rightarrow> bool" where
  "keep_review lc review =
     (let text = lowered_text lc review in
      if length text < 10 then False
      else if list_ex (\<lambda>pattern. text = pattern) spamPatterns then False
      else if length (filter is_a_z text) < 5 then False
      else True)"

definition filterReviewsForAnalysis ::
  "(jsstring \<Rightarrow> jsstring) \<Rightarrow> 'a review_text_scheme list \<Rightarrow> 'a review_text_scheme list" where
  "filterReviewsForAnalysis lc reviews = filter (keep_review lc) reviews"

subsection \<open>The filter as the specification words it\<close>

text \<open>
  The definitions of this subsection follow the specification, not the code: a review
  is dropped when its normalized (lowercased) text has fewer than 10 characters, or
  equals a phrase of the stoplist, or has fewer than 5 alphabetic characters.
\<close>

definition normalized_as_claimed :: "(jsstring \<Rightarrow> jsstring) \<Rightarrow> 'a review_text_scheme \<Rightarrow> jsstring" where
  "normalized_as_claimed lc review = (case original_text review of None \<Rightarrow> [] | Some t \<Rightarrow> lc t)"

definition stoplist_as_claimed :: "jsstring set" where
  "stoplist_as_claimed =
     {js ''good'', js ''bad'', js ''ok'', js ''nice'', js ''great'', js ''terrible'',
      js ''awful'', js ''thumbs up'', [0xD83D, 0xDC4D], [0xD83D, 0xDC4E], js ''like'',
      js ''dislike''}"

text \<open>
  An alphabetic character: a letter of the Basic Latin or Latin-1 blocks, or a code
  unit of the Greek or Cyrillic letter ranges. Letters of other scripts are not
  listed; no text below contains one.
\<close>

definition is_alphabetic :: "code_unit \<Rightarrow> bool" where
  "is_alphabetic c =
     ((0x41 \<le> c \<and> c \<le> 0x5A) \<or> (0x61 \<le> c \<and> c \<le> 0x7A)
      \<or> (0xC0 \<le> c \<and> c \<le> 0xFF \<and> c \<noteq> 0xD7 \<and> c \<noteq> 0xF7)
      \<or> (0x391 \<le> c \<and> c \<le> 0x3C9 \<and> c \<noteq> 0x3A2)
      \<or> (0x400 \<le> c \<and> c \<le> 0x481) \<or> (0x48A \<le> c \<and> c \<le> 0x52F))"

definition alphabetic_count :: "jsstring \<Rightarrow> nat" where
  "alphabetic_count s = length (filter is_alphabetic s)"

definition dropped_as_claimed :: "(jsstring \<Rightarrow> jsstring) \<Rightarrow> 'a review_text_scheme \<Rightarrow> bool" where
  "dropped_as_claimed lc review =
     (length (normalized_as_claimed lc review) < 10
      \<or> normalized_as_claimed lc review \<in> stoplist_as_claimed
      \<or> alphabetic_count (normalized_as_claimed lc review) < 5)"

text \<open>The texts whose alphabetic characters are all among \<open>a\<close> to \<open>z\<close> once lowercased.\<close>

definition latin_lowered :: "(jsstring \<Rightarrow> jsstring) \<Rightarrow> 'a review_text_scheme \<Rightarrow> bool" where
  "latin_lowered lc review =
     list_all (\<lambda>c. is_a_z c \<or> \<not> is_alphabetic c) (normalized_as_claimed lc review)"

section \<open>Similarity of two review texts\<close>

text \<open>
  The class \<open>\s\<close> of a JavaScript regular expression: TAB, LF, VT, FF, CR, SP, NBSP,
  U+1680, U+2000 to U+200A, U+2028, U+2029, U+202F, U+205F, U+3000 and U+FEFF. The two
  leading tests only skip the comparisons that cannot succeed.
\<close>

definition is_whitespace :: "code_unit \<Rightarrow> bool" where
  "is_whitespace c =
     (if c \<le> 0x20 then c = 0x20 \<or> (0x09 \<le> c \<and> c \<le> 0x0D)
      else if c < 0xA0 then False
      else c \<in> set [0xA0, 0x1680, 0x2028, 0x2029, 0x202F, 0x205F, 0x3000, 0xFEFF]
           \<or> (0x2000 \<le> c \<and> c \<le> 0x200A))"

text \<open>
  \<open>s.split(/\s+/)\<close>: the pieces between the maximal runs of whitespace. Leading or
  trailing whitespace yields an empty first or last piece, and the empty string yields
  one empty piece. The flag tells that the previous code unit was whitespace.
\<close>

fun split_from :: "bool \<Rightarrow> jsstring \<Rightarrow> jsstring list" where
  "split_from in_sep [] = [[]]"
| "split_from in_sep (c # cs) =
     (if is_whitespace c
      then (if in_sep then split_from True cs else [] # split_from True cs)
      else (case split_from False cs of [] \<Rightarrow> [[c]] | w # ws \<Rightarrow> (c # w) # ws))"

definition split_whitespace :: "jsstring \<Rightarrow> jsstring list" where
  "split_whitespace s = split_from False s"

text \<open>\<open>s.includes(t)\<close>\<close>

definition js_includes :: "jsstring \<Rightarrow> jsstring \<Rightarrow> bool" where
  "js_includes s t = sublist t s"

text \<open>
  \<open>Math.min(words1.length, words2.length) * 0.7\<close> is a product of IEEE 754 doubles.
  The literal \<open>0.7\<close> denotes the double \<open>6305039478318694 / 2^53\<close>; an array length
  \<open>m\<close> is an exact double; the product is the exact product rounded to 53 significant
  bits, ties to even. \<open>round53 N\<close> rounds the natural number \<open>N\<close> in that way, so that
  \<open>times_0_7 m / 2^53\<close> is the double \<open>m * 0.7\<close>.
\<close>

fun bit_length :: "nat \<Rightarrow> nat" where
  "bit_length n = (if n = 0 then 0 else Suc (bit_length (n div 2)))"

declare bit_length.simps [simp del]

lemma bit_length_0 [simp]: "bit_length 0 = 0"
  by (subst bit_length.simps) simp

lemma bit_length_pos: "0 < n \<Longrightarrow> bit_length n = Suc (bit_length (n div 2))"
  by (subst bit_length.simps) simp

definition round53 :: "nat \<Rightarrow> nat" where
  "round53 N =
     (let s = bit_length N - 53; q = N div 2 ^ s; r = N mod 2 ^ s
      in if 2 ^ s < 2 * r \<or> (2 * r = 2 ^ s \<and> odd q) then (q + 1) * 2 ^ s else q * 2 ^ s)"

definition times_0_7 :: "nat \<Rightarrow> nat" where
  "times_0_7 m = round53 (m * 6305039478318694)"

text \<open>\<open>c > m * 0.7\<close> for array lengths \<open>c\<close> and \<open>m\<close>.\<close>

definition exceeds_times_0_7 :: "nat \<Rightarrow> nat \<Rightarrow> bool" where
  "exceeds_times_0_7 c m = (times_0_7 m < c * 2 ^ 53)"

definition areSimilarReviews :: "(jsstring \<Rightarrow> jsstring) \<Rightarrow> jsstring \<Rightarrow> jsstring \<Rightarrow> bool" where
  "areSimilarReviews lc text1 text2 =
     (if text1 = [] \<or> text2 = [] then False
      else
        let shorter = (if length text1 < length text2 then text1 else text2);
            longer = (if length text2 \<le> length text1 then text1 else text2)
        in if js_includes (lc longer) (lc shorter) then True
           else
             let words1 = split_whitespace (lc text1);
                 words2 = split_whitespace (lc text2);
                 commonWords = filter (\<lambda>word. word \<in> set words2) words1
             in exceeds_times_0_7 (length commonWords) (min (length words1) (length words2)))"







section \<open>The hybrid scraper\<close>

text \<open>
  A row of the \<open>reviews\<close> table as a provider returns it after saving, and the
  \<open>{success, reviews?, error?}\<close> result of a provider.
\<close>

record stored_review = review_text +
  project_id :: jsstring
  author_name :: "jsstring option"
  review_date :: "jsstring option"
  source :: jsstring

record provider_result =
  success :: bool
  reviews :: "stored_review list option"
  error :: "jsstring option"

record hybrid_result =
  hybrid_success :: bool
  hybrid_reviews :: "stored_review list"
  totalCount :: nat
  sources_placesAPI :: nat
  sources_webScraping :: nat
  errors :: "jsstring list option"

text \<open>
  \<open>areSimilarReviews(existingReview.original_text, scrapedReview.original_text)\<close>:
  a missing text is falsy, as the empty text is.
\<close>

definition similar_rows ::
  "(jsstring \<Rightarrow> jsstring) \<Rightarrow> 'a review_text_scheme \<Rightarrow> 'b review_text_scheme \<Rightarrow> bool" where
  "similar_rows lc existingReview scrapedReview =
     (case (original_text existingReview, original_text scrapedReview) of
        (Some text1, Some text2) \<Rightarrow> areSimilarReviews lc text1 text2
      | _ \<Rightarrow> False)"

text \<open>The template \<open>`${label}: ${result.error}`\<close>.\<close>

definition error_line :: "string \<Rightarrow> jsstring option \<Rightarrow> jsstring" where
  "error_line label e = js label @ js '': '' @ (case e of None \<Rightarrow> js ''undefined'' | Some m \<Rightarrow> m)"

text \<open>
  Modelled from the spec: the Persistence Gateway's \<open>insertReviews\<close>, of which only the
  call is in the source. It either fails or returns the reviews it was given, as stored
  rows; \<open>insert_ok\<close> tells which.
\<close>

definition insertReviews :: "bool \<Rightarrow> stored_review list \<Rightarrow> stored_review list option" where
  "insertReviews insert_ok rows = (if insert_ok then Some rows else None)"

text \<open>
  \<open>scrapeAllReviewsHybrid\<close>, given the results of the two providers. Both providers
  catch their own exceptions, so the outer \<open>catch\<close> of the source is not reached.
\<close>

definition scrapeAllReviewsHybrid ::
  "(jsstring \<Rightarrow> jsstring) \<Rightarrow> bool \<Rightarrow> jsstring \<Rightarrow> provider_result \<Rightarrow> provider_result
     \<Rightarrow> hybrid_result" where
  "scrapeAllReviewsHybrid lc insert_ok projectId placesResult scrapingResult =
     (let (allReviews, errors1) =
            (case (success placesResult, reviews placesResult) of
               (True, Some rs) \<Rightarrow> (rs, [])
             | _ \<Rightarrow> ([], [error_line ''Places API'' (error placesResult)]));
          (allReviews', errors2) =
            (case (success scrapingResult, reviews scrapingResult) of
               (True, Some scraped) \<Rightarrow>
                 (let newReviews =
                        filter (\<lambda>scrapedReview.
                                  \<not> list_ex (\<lambda>existingReview.
                                                similar_rows lc existingReview scrapedReview)
                                            allReviews)
                               scraped
                  in if 0 < length newReviews
                     then (case insertReviews insert_ok
                                  (map (\<lambda>review.
                                          \<lparr>original_text = original_text review,
                                           rating = rating review,
                                           project_id = projectId,
                                           author_name = author_name review,
                                           review_date = review_date review,
                                           source = js ''web_scraping''\<rparr>)
                                       newReviews) of
                             Some savedReviews \<Rightarrow> allReviews @ savedReviews
                           | None \<Rightarrow> allReviews)
                     else allReviews,
                  errors1)
             | _ \<Rightarrow> (allReviews, errors1 @ [error_line ''Web scraping'' (error scrapingResult)]))
      in \<lparr>hybrid_success = (0 < length allReviews'),
          hybrid_reviews = allReviews',
          totalCount = length allReviews',
          sources_placesAPI =
            (if success placesResult
             then (case reviews placesResult of Some rs \<Rightarrow> length rs | None \<Rightarrow> 0) else 0),
          sources_webScraping =
            (if success scrapingResult
             then (case reviews scrapingResult of Some rs \<Rightarrow> length rs | None \<Rightarrow> 0) else 0),
          errors = (if 0 < length errors2 then Some errors2 else None)\<rparr>)"

text \<open>The row \<open>scrapeAllReviewsHybrid\<close> inserts for a new review, and its \<open>newReviews\<close>.\<close>

definition to_insert :: "jsstring \<Rightarrow> stored_review \<Rightarrow> stored_review" where
  "to_insert projectId review =
     \<lparr>original_text = original_text review, rating = rating review, project_id = projectId,
      author_name = author_name review, review_date = review_date review,
      source = js ''web_scraping''\<rparr>"

definition newReviews_of ::
  "(jsstring \<Rightarrow> jsstring) \<Rightarrow> stored_review list \<Rightarrow> stored_review list \<Rightarrow> stored_review list" where
  "newReviews_of lc existing scraped =
     filter (\<lambda>s. \<not> list_ex (\<lambda>e. similar_rows lc e s) existing) scraped"

text \<open>The reviews a provider contributed: none unless it succeeded with a list.\<close>

definition provided :: "provider_result \<Rightarrow> stored_review list" where
  "provided r = (case (success r, reviews r) of (True, Some rs) \<Rightarrow> rs | _ \<Rightarrow> [])"

text \<open>Two records at different positions of a list are judged similar.\<close>

definition has_similar_pair :: "(jsstring \<Rightarrow> jsstring) \<Rightarrow> stored_review list \<Rightarrow> bool" where
  "has_similar_pair lc rs =
     list_ex (\<lambda>i. list_ex (\<lambda>j. i \<noteq> j \<and> similar_rows lc (rs ! i) (rs ! j)) [0..<length rs])
             [0..<length rs]"


section \<open>Polling an asynchronous scrape job\<close>

text \<open>
  What one polling attempt observes. \<open>Threw\<close> is any exception raised inside the
  \<open>try\<close> block: the request was rejected (network error, the 10 s timeout, a status
  outside 2xx) or the reply has no body to read \<open>status\<close> from. \<open>Reply\<close> carries the
  HTTP status, \<open>response.data.status\<close> and \<open>response.data\<close>.
\<close>

datatype 'd poll_reply = Threw | Reply nat "jsstring option" 'd

record 'd poll_result =
  poll_success :: bool
  poll_data :: "'d option"
  poll_error :: "jsstring option"

text \<open>
  A run of \<open>pollForResults\<close>: the result it returns, the attempts on which it sent a
  request, and the waits (attempt number and milliseconds) it slept.
\<close>

record 'd poll_run =
  poll_returned :: "'d poll_result"
  poll_requests :: "nat list"
  poll_waits :: "(nat \<times> nat) list"

text \<open>
  The \<open>for\<close> loop of \<open>pollForResults\<close> from \<open>attempt\<close> on; \<open>replies k\<close> is what
  attempt \<open>k\<close> observes.
\<close>

function poll_loop ::
  "(nat \<Rightarrow> 'd poll_reply) \<Rightarrow> nat \<Rightarrow> nat \<Rightarrow> nat list \<Rightarrow> (nat \<times> nat) list \<Rightarrow> 'd poll_run" where
  "poll_loop replies maxAttempts attempt requests waits =
     (if attempt \<le> maxAttempts then
        (case replies attempt of
           Reply status job d \<Rightarrow>
             if status = 200 \<and> job = Some (js ''Success'') then
               \<lparr>poll_returned = \<lparr>poll_success = True, poll_data = Some d, poll_error = None\<rparr>,
                poll_requests = requests @ [attempt], poll_waits = waits\<rparr>
             else if job = Some (js ''Failed'') then
               \<lparr>poll_returned =
                  \<lparr>poll_success = False, poll_data = None,
                   poll_error = Some (js ''Outscraper processing failed'')\<rparr>,
                poll_requests = requests @ [attempt], poll_waits = waits\<rparr>
             else
               poll_loop replies maxAttempts (attempt + 1) (requests @ [attempt])
                 (waits @ [(attempt, min (5000 * attempt) 30000)])
         | Threw \<Rightarrow>
             if attempt = maxAttempts then
               \<lparr>poll_returned =
                  \<lparr>poll_success = False, poll_data = None,
                   poll_error = Some (js ''Polling timeout - results not ready'')\<rparr>,
                poll_requests = requests @ [attempt], poll_waits = waits\<rparr>
             else poll_loop replies maxAttempts (attempt + 1) (requests @ [attempt]) waits)
      else
        \<lparr>poll_returned =
           \<lparr>poll_success = False, poll_data = None,
            poll_error = Some (js ''Polling timeout - max attempts reached'')\<rparr>,
         poll_requests = requests, poll_waits = waits\<rparr>)"
  by pat_completeness auto
termination
  by (relation "measure (\<lambda>(replies, maxAttempts, attempt, requests, waits).
                            Suc maxAttempts - attempt)") auto

declare poll_loop.simps [simp del]

definition pollForResults :: "(nat \<Rightarrow> 'd poll_reply) \<Rightarrow> nat \<Rightarrow> 'd poll_run" where
  "pollForResults replies maxAttempts = poll_loop replies maxAttempts 1 [] []"

text \<open>The call \<open>pollForResults(resultsUrl, apiKey)\<close> with the default \<open>maxAttempts = 12\<close>.\<close>

definition pollForResults_default :: "(nat \<Rightarrow> 'd poll_reply) \<Rightarrow> 'd poll_run" where
  "pollForResults_default replies = pollForResults replies 12"

text \<open>The three outcomes of a poll.\<close>

definition is_success :: "'d poll_result \<Rightarrow> bool" where
  "is_success r = (poll_success r \<and> poll_data r \<noteq> None \<and> poll_error r = None)"

definition is_failed :: "'d poll_result \<Rightarrow> bool" where
  "is_failed r =
     (\<not> poll_success r \<and> poll_data r = None
      \<and> poll_error r = Some (js ''Outscraper processing failed''))"

definition is_timeout :: "'d poll_result \<Rightarrow> bool" where
  "is_timeout r =
     (\<not> poll_success r \<and> poll_data r = None
      \<and> (poll_error r = Some (js ''Polling timeout - results not ready'')
           \<or> poll_error r = Some (js ''Polling timeout - max attempts reached'')))"

text \<open>An attempt is pending: it got a reply that is neither the success nor the failure.\<close>

definition is_pending :: "'d poll_reply \<Rightarrow> bool" where
  "is_pending r =
     (case r of
        Threw \<Rightarrow> False
      | Reply status job d \<Rightarrow>
          \<not> (status = 200 \<and> job = Some (js ''Success'')) \<and> job \<noteq> Some (js ''Failed''))"


text \<open>
  What a run between attempt \<open>a\<close> and its last attempt \<open>n\<close> did: it sent one request
  per attempt, slept \<open>min (5000 * k) 30000\<close> ms after each pending attempt \<open>k\<close> and after
  no other, and no attempt before the last met a final reply.
\<close>

definition attempts_made ::
  "(nat \<Rightarrow> 'd poll_reply) \<Rightarrow> nat \<Rightarrow> nat \<Rightarrow> nat list \<Rightarrow> (nat \<times> nat) list \<Rightarrow> 'd poll_run \<Rightarrow> bool" where
  "attempts_made replies a n requests waits run =
     (poll_requests run = requests @ [a..<Suc n]
      \<and> poll_waits run =
          waits @ map (\<lambda>k. (k, min (5000 * k) 30000))
                      (filter (\<lambda>k. is_pending (replies k)) [a..<Suc n])
      \<and> list_all (\<lambda>k. replies k = Threw \<or> is_pending (replies k)) [a..<n])"

text \<open>
  The result of a run whose last attempt was \<open>n\<close>: the data of the reply that reported
  \<open>Success\<close>, the failure that a reply reported, or the timeout after the last allowed
  attempt.
\<close>

definition outcome_at ::
  "(nat \<Rightarrow> 'd poll_reply) \<Rightarrow> nat \<Rightarrow> nat \<Rightarrow> nat \<Rightarrow> 'd poll_result \<Rightarrow> bool" where
  "outcome_at replies maxAttempts a n r =
     ((is_success r \<and> a \<le> n
         \<and> (\<exists>d. replies n = Reply 200 (Some (js ''Success'')) d \<and> poll_data r = Some d))
      \<or> (is_failed r \<and> a \<le> n \<and> (\<exists>status d. replies n = Reply status (Some (js ''Failed'')) d))
      \<or> (is_timeout r \<and> n = maxAttempts
           \<and> (a \<le> maxAttempts \<longrightarrow> replies maxAttempts = Threw \<or> is_pending (replies maxAttempts))))"

section \<open>The analysis engine\<close>

subsection \<open>Values and exceptions\<close>

text \<open>
  A value as \<open>JSON.parse\<close> returns it, or an object literal of the source.
  \<open>undefined\<close> is \<open>None\<close> of \<open>json option\<close>. An object is the list of its members in
  source order; a later member with the same key overrides an earlier one.
\<close>

datatype json =
  JNull | JBool bool | JNum jsnum | JStr jsstring | JArr "json list"
  | JObj "(jsstring \<times> json) list"

datatype exn = TypeError | SyntaxError | Error jsstring

text \<open>
  \<open>result.key\<close> for one of the keys the source reads: reading a property of \<open>null\<close>
  throws, a value that is not an object has none of these properties.
\<close>

definition get_prop :: "json \<Rightarrow> string \<Rightarrow> exn + json option" where
  "get_prop v key =
     (case v of
        JNull \<Rightarrow> Inl TypeError
      | JObj members \<Rightarrow> Inr (map_of (rev members) (js key))
      | _ \<Rightarrow> Inr None)"

text \<open>Sequencing of two steps, the first of which may throw.\<close>

definition bind_exn :: "exn + 'a \<Rightarrow> ('a \<Rightarrow> exn + 'b) \<Rightarrow> exn + 'b" where
  "bind_exn m f = (case m of Inl e \<Rightarrow> Inl e | Inr x \<Rightarrow> f x)"

text \<open>\<open>typeof item === 'string'\<close>\<close>

fun is_string :: "json \<Rightarrow> bool" where
  "is_string (JStr s) = True"
| "is_string _ = False"

record ReviewAnalysisResult =
  primary_category :: jsstring
  primary_confidence :: jsnum
  secondary_categories :: "json list"
  themes :: "json list"
  sentiment_score :: jsnum
  key_phrases :: "json list"
  summary :: jsstring

subsection \<open>String helpers\<close>

text \<open>\<open>s.split(' ')\<close> and \<open>pieces.join(' ')\<close>\<close>

fun split_on :: "code_unit \<Rightarrow> jsstring \<Rightarrow> jsstring list" where
  "split_on sep [] = [[]]"
| "split_on sep (c # cs) =
     (if c = sep then [] # split_on sep cs
      else (case split_on sep cs of [] \<Rightarrow> [[c]] | w # ws \<Rightarrow> (c # w) # ws))"

fun js_join :: "jsstring \<Rightarrow> jsstring list \<Rightarrow> jsstring" where
  "js_join sep [] = []"
| "js_join sep [w] = w"
| "js_join sep (w # ws) = w @ sep @ js_join sep ws"

subsection \<open>The rating-derived fallback\<close>

text \<open>A parameter \<open>rating?: number\<close> is \<open>None\<close> when it is absent.\<close>

definition inferCategoryFromRating :: "jsnum option \<Rightarrow> jsstring" where
  "inferCategoryFromRating rating' =
     (case rating' of
        None \<Rightarrow> js ''neutral''
      | Some r \<Rightarrow>
          if \<not> truthy_num r then js ''neutral''
          else if num_le (Fin 4) r then js ''positive''
          else if num_le r (Fin 2) then js ''negative''
          else js ''neutral'')"

definition createFallbackAnalysis :: "jsstring \<Rightarrow> jsnum option \<Rightarrow> ReviewAnalysisResult" where
  "createFallbackAnalysis reviewText rating' =
     (let category = inferCategoryFromRating rating';
          sentimentScore =
            (case rating' of
               None \<Rightarrow> Fin 0
             | Some r \<Rightarrow> if truthy_num r then sub_div r 3 2 else Fin 0)
      in \<lparr>primary_category = category,
          primary_confidence = Fin (6 / 10),
          secondary_categories = [JStr (js ''general'')],
          themes = [JStr (js ''customer experience'')],
          sentiment_score = sentimentScore,
          key_phrases = [JStr (js_join (js '' '') (take 3 (split_on 0x20 reviewText)))],
          summary = js ''Customer review expressing '' @ category
                    @ js '' sentiment about the service''\<rparr>)"

subsection \<open>Cleaning the reply of the model\<close>

text \<open>\<open>content.replace(/```json\s*|\s*```/g, '')\<close>, scanning from the left.\<close>

function strip_fences :: "jsstring \<Rightarrow> jsstring" where
  "strip_fences [] = []"
| "strip_fences (c # cs) =
     (if prefix (js ''```json'') (c # cs)
      then strip_fences (dropWhile is_whitespace (drop 7 (c # cs)))
      else if prefix (js ''```'') (dropWhile is_whitespace (c # cs))
      then strip_fences (drop 3 (dropWhile is_whitespace (c # cs)))
      else c # strip_fences cs)"
  by pat_completeness auto
termination
proof (relation "measure length")
  fix c :: code_unit and cs
  show "(dropWhile is_whitespace (drop 7 (c # cs)), c # cs) \<in> measure length"
    using length_dropWhile_le [of is_whitespace "drop 7 (c # cs)"] by simp
next
  fix c :: code_unit and cs
  assume "prefix (js ''```'') (dropWhile is_whitespace (c # cs))"
  then have "3 \<le> length (dropWhile is_whitespace (c # cs))"
    by (auto simp: prefix_def js_def)
  then show "(drop 3 (dropWhile is_whitespace (c # cs)), c # cs) \<in> measure length"
    using length_dropWhile_le [of is_whitespace "c # cs"] by simp
qed simp_all

text \<open>\<open>cleaned.substring(firstBrace)\<close> when the first \<open>{\<close> is not at the start.\<close>

definition from_first_brace :: "jsstring \<Rightarrow> jsstring" where
  "from_first_brace s = (if 0x7B \<in> set s then dropWhile (\<lambda>c. c \<noteq> 0x7B) s else s)"

text \<open>\<open>cleaned.substring(0, lastBrace + 1)\<close> when the last \<open>}\<close> is not at the end.\<close>

definition to_last_brace :: "jsstring \<Rightarrow> jsstring" where
  "to_last_brace s = (if 0x7D \<in> set s then rev (dropWhile (\<lambda>c. c \<noteq> 0x7D) (rev s)) else s)"

text \<open>\<open>replace(/,\s*}/g, '}')\<close> and \<open>replace(/,\s*]/g, ']')\<close>, for the closing bracket given.\<close>

function drop_trailing_commas :: "code_unit \<Rightarrow> jsstring \<Rightarrow> jsstring" where
  "drop_trailing_commas close [] = []"
| "drop_trailing_commas close (c # cs) =
     (if c = 0x2C \<and> prefix [close] (dropWhile is_whitespace cs)
      then close # drop_trailing_commas close (drop 1 (dropWhile is_whitespace cs))
      else c # drop_trailing_commas close cs)"
  by pat_completeness auto
termination
proof (relation "measure (\<lambda>(close, s). length s)")
  fix close c :: code_unit and cs
  show "((close, drop 1 (dropWhile is_whitespace cs)), (close, c # cs))
          \<in> measure (\<lambda>(close, s). length s)"
    using length_dropWhile_le [of is_whitespace cs] by simp
qed simp_all

text \<open>\<open>replace(/\s+/g, ' ')\<close>\<close>

function collapse_whitespace :: "jsstring \<Rightarrow> jsstring" where
  "collapse_whitespace [] = []"
| "collapse_whitespace (c # cs) =
     (if is_whitespace c then 0x20 # collapse_whitespace (dropWhile is_whitespace cs)
      else c # collapse_whitespace cs)"
  by pat_completeness auto
termination
proof (relation "measure length")
  fix c :: code_unit and cs
  show "(dropWhile is_whitespace cs, c # cs) \<in> measure length"
    using length_dropWhile_le [of is_whitespace cs] by simp
qed simp_all

text \<open>\<open>s.trim()\<close>\<close>

definition trim :: "jsstring \<Rightarrow> jsstring" where
  "trim s = rev (dropWhile is_whitespace (rev (dropWhile is_whitespace s)))"

definition cleanJsonResponse :: "jsstring \<Rightarrow> jsstring" where
  "cleanJsonResponse content =
     (let cleaned = strip_fences content;
          cleaned = from_first_brace cleaned;
          cleaned = to_last_brace cleaned;
          cleaned = map (\<lambda>c. if c = 0x27 then 0x22 else c) cleaned;
          cleaned = drop_trailing_commas 0x7D cleaned;
          cleaned = drop_trailing_commas 0x5D cleaned;
          cleaned = map (\<lambda>c. if c = 0x0A then 0x20 else c) cleaned;
          cleaned = collapse_whitespace cleaned
      in trim cleaned)"

subsection \<open>Extraction from a reply that does not parse\<close>

text \<open>
  \<open>content.match(re)\<close> for a pattern \<open>key\s*value\<close>: the leftmost position at which
  \<open>key\<close>, any whitespace and a value follow; the result is the captured value.
\<close>

fun regex_search :: "(jsstring \<Rightarrow> 'a option) \<Rightarrow> jsstring \<Rightarrow> 'a option" where
  "regex_search m [] = m []"
| "regex_search m (c # cs) = (case m (c # cs) of Some r \<Rightarrow> Some r | None \<Rightarrow> regex_search m cs)"

definition key_then :: "string \<Rightarrow> (jsstring \<Rightarrow> 'a option) \<Rightarrow> jsstring \<Rightarrow> 'a option" where
  "key_then key val s =
     (if prefix (js key) s then val (dropWhile is_whitespace (drop (length key) s)) else None)"

text \<open>\<open>"(positive|negative|neutral)"\<close>\<close>

definition category_value :: "jsstring \<Rightarrow> jsstring option" where
  "category_value s =
     (if prefix (js ''\"positive\"'') s then Some (js ''positive'')
      else if prefix (js ''\"negative\"'') s then Some (js ''negative'')
      else if prefix (js ''\"neutral\"'') s then Some (js ''neutral'')
      else None)"

text \<open>\<open>([\d.]+)\<close> and \<open>([-\d.]+)\<close>\<close>

definition is_digit_or_dot :: "code_unit \<Rightarrow> bool" where
  "is_digit_or_dot c = ((0x30 \<le> c \<and> c \<le> 0x39) \<or> c = 0x2E)"

definition chars_value :: "(code_unit \<Rightarrow> bool) \<Rightarrow> jsstring \<Rightarrow> jsstring option" where
  "chars_value allowed s = (if takeWhile allowed s = [] then None else Some (takeWhile allowed s))"

text \<open>A result object as a value, for the \<open>catch\<close> of \<open>attemptFallbackParsing\<close>.\<close>

definition result_json :: "ReviewAnalysisResult \<Rightarrow> json" where
  "result_json r =
     JObj
       [(js ''primary_category'', JStr (primary_category r)),
        (js ''primary_confidence'', JNum (primary_confidence r)),
        (js ''secondary_categories'', JArr (secondary_categories r)),
        (js ''themes'', JArr (themes r)),
        (js ''sentiment_score'', JNum (sentiment_score r)),
        (js ''key_phrases'', JArr (key_phrases r)),
        (js ''summary'', JStr (summary r))]"

text \<open>
  \<open>attemptFallbackParsing\<close>. \<open>parseFloat\<close> is the built-in, a parameter here, which
  returns a number or throws. The matches of a string \<open>content\<close> do not throw; if a
  \<open>parseFloat\<close> does, the \<open>catch\<close> returns the fallback analysis.
\<close>

definition attemptFallbackParsing ::
  "(json option \<Rightarrow> exn + jsnum) \<Rightarrow> jsstring \<Rightarrow> jsstring \<Rightarrow> jsnum option \<Rightarrow> json" where
  "attemptFallbackParsing parseFloat content reviewText rating' =
     (let primaryCategoryMatch =
            regex_search (key_then ''\"primary_category\":'' category_value) content;
          confidenceMatch =
            regex_search (key_then ''\"primary_confidence\":'' (chars_value is_digit_or_dot)) content;
          sentimentMatch =
            regex_search (key_then ''\"sentiment_score\":''
                            (chars_value (\<lambda>c. c = 0x2D \<or> is_digit_or_dot c))) content;
          attempt =
            bind_exn (case confidenceMatch of
                        Some v \<Rightarrow> parseFloat (Some (JStr v)) | None \<Rightarrow> Inr (Fin (1 / 2)))
              (\<lambda>confidence.
            bind_exn (case sentimentMatch of
                        Some v \<Rightarrow> parseFloat (Some (JStr v)) | None \<Rightarrow> Inr (Fin 0))
              (\<lambda>sentiment.
            Inr (JObj
              [(js ''primary_category'',
                  JStr (case primaryCategoryMatch of Some c \<Rightarrow> c | None \<Rightarrow> js ''neutral'')),
               (js ''primary_confidence'', JNum confidence),
               (js ''secondary_categories'', JArr [JStr (js ''general'')]),
               (js ''themes'', JArr [JStr (js ''review analysis'')]),
               (js ''sentiment_score'', JNum sentiment),
               (js ''key_phrases'', JArr [JStr (js ''analysis'')]),
               (js ''summary'', JStr (take 100 reviewText @ js ''...''))])))
      in case attempt of
           Inr parsed \<Rightarrow> parsed
         | Inl e \<Rightarrow> result_json (createFallbackAnalysis reviewText rating'))"

subsection \<open>Validation\<close>

definition validCategories :: "jsstring list" where
  "validCategories = [js ''positive'', js ''negative'', js ''neutral'']"

text \<open>\<open>parseFloat(x) || d\<close>\<close>

definition or_default :: "jsnum \<Rightarrow> jsnum \<Rightarrow> jsnum" where
  "or_default x d = (if truthy_num x then x else d)"

text \<open>
  \<open>Array.isArray(x) ? x.filter(item => typeof item === 'string').slice(0, 5) : d\<close>
\<close>

definition string_items :: "json option \<Rightarrow> json list \<Rightarrow> json list" where
  "string_items x d = (case x of Some (JArr items) \<Rightarrow> take 5 (filter is_string items) | _ \<Rightarrow> d)"

text \<open>\<open>themes[0] || 'service'\<close>\<close>

definition first_theme :: "json list \<Rightarrow> jsstring" where
  "first_theme ts = (case ts of JStr t # _ \<Rightarrow> (if t = [] then js ''service'' else t) | _ \<Rightarrow> js ''service'')"

text \<open>
  The \<open>try\<close> block of \<open>validateAndSanitizeResult\<close>. Reading a property of \<open>null\<close> or
  \<open>undefined\<close> throws, and so does \<open>parseFloat\<close> of an object that has no primitive
  value, such as the parsed \<open>{"toString": 1}\<close>.
\<close>

definition validate_body ::
  "(json option \<Rightarrow> exn + jsnum) \<Rightarrow> json \<Rightarrow> jsnum option \<Rightarrow> exn + ReviewAnalysisResult" where
  "validate_body parseFloat result rating' =
     bind_exn (get_prop result ''primary_category'') (\<lambda>category.
     bind_exn (get_prop result ''primary_confidence'') (\<lambda>confidence.
     bind_exn (parseFloat confidence) (\<lambda>confidence_number.
     bind_exn (get_prop result ''sentiment_score'') (\<lambda>sentiment.
     bind_exn (parseFloat sentiment) (\<lambda>sentiment_number.
     bind_exn (get_prop result ''secondary_categories'') (\<lambda>secondary.
     bind_exn (get_prop result ''themes'') (\<lambda>themes'.
     bind_exn (get_prop result ''key_phrases'') (\<lambda>phrases.
     bind_exn (get_prop result ''summary'') (\<lambda>summary'.
       let primary_category' =
             (case category of
                Some (JStr s) \<Rightarrow>
                  if s \<in> set validCategories then s else inferCategoryFromRating rating'
              | _ \<Rightarrow> inferCategoryFromRating rating');
           primary_confidence' =
             Math_max (Fin 0) (Math_min (Fin 1) (or_default confidence_number (Fin (1 / 2))));
           sentiment_score' =
             Math_max (Fin (- 1)) (Math_min (Fin 1) (or_default sentiment_number (Fin 0)));
           secondary_categories' = string_items secondary [JStr (js ''general'')];
           themes'' = string_items themes' [JStr (js ''general feedback'')];
           key_phrases' = string_items phrases [JStr (js ''review'')];
           summary'' =
             (case summary' of
                Some (JStr s) \<Rightarrow>
                  if 0 < length s then take 200 s
                  else js ''Review about '' @ first_theme themes'' @ js '' with ''
                       @ primary_category' @ js '' sentiment''
              | _ \<Rightarrow> js ''Review about '' @ first_theme themes'' @ js '' with ''
                     @ primary_category' @ js '' sentiment'')
       in Inr \<lparr>primary_category = primary_category',
               primary_confidence = primary_confidence',
               secondary_categories = secondary_categories',
               themes = themes'',
               sentiment_score = sentiment_score',
               key_phrases = key_phrases',
               summary = summary''\<rparr>)))))))))"

definition validateAndSanitizeResult ::
  "(json option \<Rightarrow> exn + jsnum) \<Rightarrow> json \<Rightarrow> jsstring \<Rightarrow> jsnum option \<Rightarrow> ReviewAnalysisResult" where
  "validateAndSanitizeResult parseFloat result reviewText rating' =
     (case validate_body parseFloat result rating' of
        Inr validated \<Rightarrow> validated
      | Inl e \<Rightarrow> createFallbackAnalysis reviewText rating')"

subsection \<open>Analysis of one review\<close>

text \<open>
  What the chat-completion request of one analysis yields: the request throws
  (network error, rate limit, a reply without \<open>choices\<close>), or
  \<open>response.choices[0]?.message?.content\<close> is read, which may be \<open>undefined\<close> or \<open>null\<close>.
\<close>

datatype llm_outcome = LlmThrows | LlmContent "jsstring option"

text \<open>
  The two built-ins of the engine that the analysis uses: \<open>JSON.parse\<close>, which returns a
  value or throws a \<open>SyntaxError\<close> (\<open>None\<close>), and \<open>parseFloat\<close> on any value, which
  returns a number or throws.
\<close>

record js_engine =
  JSON_parse :: "jsstring \<Rightarrow> json option"
  parseFloat_of :: "json option \<Rightarrow> exn + jsnum"

text \<open>The \<open>try\<close> block of \<open>analyzeReview\<close>; the prompt only feeds the request.\<close>

definition analyze_body ::
  "js_engine \<Rightarrow> llm_outcome \<Rightarrow> jsstring \<Rightarrow> jsnum option \<Rightarrow> exn + ReviewAnalysisResult" where
  "analyze_body E reply reviewText rating' =
     (case reply of
        LlmThrows \<Rightarrow> Inl (Error (js ''request failed''))
      | LlmContent content \<Rightarrow>
          (case content of
             None \<Rightarrow> Inl (Error (js ''No response from OpenAI''))
           | Some text' \<Rightarrow>
               if text' = [] then Inl (Error (js ''No response from OpenAI''))
               else
                 let cleanedContent = cleanJsonResponse text';
                     parsedResult =
                       (case JSON_parse E cleanedContent of
                          Some v \<Rightarrow> v
                        | None \<Rightarrow>
                            attemptFallbackParsing (parseFloat_of E) cleanedContent reviewText
                              rating')
                 in Inr (validateAndSanitizeResult (parseFloat_of E) parsedResult reviewText
                           rating')))"

text \<open>
  \<open>analyzeReview\<close> and \<open>analyzeReviewFast\<close>: the \<open>try\<close> block, and the fallback analysis
  in the \<open>catch\<close>. The result is \<open>Inr\<close> of the value the promise resolves to, \<open>Inl\<close> of
  the exception it rejects with.
\<close>

definition analyzeReview ::
  "js_engine \<Rightarrow> llm_outcome \<Rightarrow> jsstring \<Rightarrow> jsnum option \<Rightarrow> exn + ReviewAnalysisResult" where
  "analyzeReview E reply reviewText rating' =
     (case analyze_body E reply reviewText rating' of
        Inr validatedResult \<Rightarrow> Inr validatedResult
      | Inl e \<Rightarrow> Inr (createFallbackAnalysis reviewText rating'))"

definition analyzeReviewFast ::
  "js_engine \<Rightarrow> llm_outcome \<Rightarrow> jsstring \<Rightarrow> jsnum option \<Rightarrow> exn + ReviewAnalysisResult" where
  "analyzeReviewFast E reply reviewText rating' =
     (case analyze_body E reply reviewText rating' of
        Inr validatedResult \<Rightarrow> Inr validatedResult
      | Inl e \<Rightarrow> Inr (createFallbackAnalysis reviewText rating'))"

text \<open>The output schema of an analysis.\<close>

definition valid_list :: "json list \<Rightarrow> bool" where
  "valid_list xs = (length xs \<le> 5 \<and> list_all is_string xs)"

definition valid_result :: "ReviewAnalysisResult \<Rightarrow> bool" where
  "valid_result r =
     (primary_category r \<in> set validCategories
      \<and> in_range 0 1 (primary_confidence r)
      \<and> in_range (- 1) 1 (sentiment_score r)
      \<and> valid_list (secondary_categories r)
      \<and> valid_list (themes r)
      \<and> valid_list (key_phrases r))"

text \<open>The output schema apart from the sentiment.\<close>

definition valid_apart_from_sentiment :: "ReviewAnalysisResult \<Rightarrow> bool" where
  "valid_apart_from_sentiment r =
     (primary_category r \<in> set validCategories
      \<and> in_range 0 1 (primary_confidence r)
      \<and> valid_list (secondary_categories r)
      \<and> valid_list (themes r)
      \<and> valid_list (key_phrases r))"

text \<open>
  A rating of the domain of reviews, an integer from 1 to 5, or none; the predicate
  also admits the falsy numbers and the fractions between 1 and 5.
\<close>

definition rating_in_scale :: "jsnum option \<Rightarrow> bool" where
  "rating_in_scale rating' =
     (case rating' of None \<Rightarrow> True | Some r \<Rightarrow> \<not> truthy_num r \<or> in_range 1 5 r)"

section \<open>Batch analysis\<close>

text \<open>
  The input \<open>{id, text, rating?}\<close> and the output \<open>{id, analysis}\<close> of a batch. The
  fields are named \<open>rev_id\<close>, \<open>rev_text\<close>, \<open>rev_rating\<close> and \<open>item_id\<close>, since \<open>id\<close> and
  \<open>text\<close> are taken.
\<close>

record review_input =
  rev_id :: jsstring
  rev_text :: jsstring
  rev_rating :: "jsnum option"

record analysis_item =
  item_id :: jsstring
  analysis :: ReviewAnalysisResult

text \<open>
  What a batch run does, in order: it issues the request for a review, it resumes after
  \<open>await Promise.all\<close> (or the single \<open>await\<close>) once every request issued so far has
  settled, it sleeps for some milliseconds.
\<close>

datatype batch_event = Issued jsstring | Settled | Delay nat

text \<open>
  The state of a batch run: the \<open>results\<close> array, the number of requests sent so far,
  and the events so far. The reply to the \<open>k\<close>-th request of the run is \<open>llm k\<close>.
\<close>

record batch_state =
  bs_results :: "analysis_item list"
  bs_calls :: nat
  bs_events :: "batch_event list"

definition initial_batch_state :: batch_state where
  "initial_batch_state = \<lparr>bs_results = [], bs_calls = 0, bs_events = []\<rparr>"

text \<open>\<open>xs.slice(start, end)\<close> for integers \<open>start\<close> and \<open>end\<close>.\<close>

definition js_slice :: "'a list \<Rightarrow> int \<Rightarrow> int \<Rightarrow> 'a list" where
  "js_slice xs start end' =
     (let len = int (length xs);
          k = (if start < 0 then max (len + start) 0 else min start len);
          final = (if end' < 0 then max (len + end') 0 else min end' len)
      in take (nat (final - k)) (drop (nat k) xs))"

text \<open>
  The callback of \<open>batch.map\<close> in the two windowed batches: the analysis, and the fallback
  analysis if it throws.
\<close>

definition analyze_item ::
  "(llm_outcome \<Rightarrow> jsstring \<Rightarrow> jsnum option \<Rightarrow> exn + ReviewAnalysisResult)
     \<Rightarrow> (nat \<Rightarrow> llm_outcome) \<Rightarrow> review_input \<Rightarrow> nat \<Rightarrow> analysis_item" where
  "analyze_item analyze llm review k =
     (case analyze (llm k) (rev_text review) (rev_rating review) of
        Inr a \<Rightarrow> \<lparr>item_id = rev_id review, analysis = a\<rparr>
      | Inl e \<Rightarrow>
          \<lparr>item_id = rev_id review,
           analysis = createFallbackAnalysis (rev_text review) (rev_rating review)\<rparr>)"

text \<open>The items of some reviews whose requests are numbered from \<open>n\<close> on.\<close>

definition all_items ::
  "(llm_outcome \<Rightarrow> jsstring \<Rightarrow> jsnum option \<Rightarrow> exn + ReviewAnalysisResult)
     \<Rightarrow> (nat \<Rightarrow> llm_outcome) \<Rightarrow> review_input list \<Rightarrow> nat \<Rightarrow> analysis_item list" where
  "all_items analyze llm revs n =
     map (\<lambda>(review, k). analyze_item analyze llm review k) (zip revs [n..<n + length revs])"

text \<open>One window: the requests of the batch are issued in order, then awaited together.\<close>

definition run_window ::
  "(llm_outcome \<Rightarrow> jsstring \<Rightarrow> jsnum option \<Rightarrow> exn + ReviewAnalysisResult)
     \<Rightarrow> (nat \<Rightarrow> llm_outcome) \<Rightarrow> review_input list \<Rightarrow> batch_state \<Rightarrow> batch_state" where
  "run_window analyze llm batch st =
     \<lparr>bs_results = bs_results st @ all_items analyze llm batch (bs_calls st),
      bs_calls = bs_calls st + length batch,
      bs_events = bs_events st @ map (\<lambda>review. Issued (rev_id review)) batch @ [Settled]\<rparr>"

definition pause_between :: "nat \<Rightarrow> batch_state \<Rightarrow> batch_state" where
  "pause_between ms st = st\<lparr>bs_events := bs_events st @ [Delay ms]\<rparr>"

text \<open>
  The loop \<open>for (let i = 0; i < reviews.length; i += concurrency)\<close> of
  \<open>batchAnalyzeReviewsFast\<close> and \<open>batchAnalyzeReviewsUltraFast\<close>, which differ in the
  analysis they call and in the pause. The loop need not end, so the result is an
  option: \<open>None\<close> when the function does not return.
\<close>

partial_function (option) windowed_loop ::
  "(llm_outcome \<Rightarrow> jsstring \<Rightarrow> jsnum option \<Rightarrow> exn + ReviewAnalysisResult)
     \<Rightarrow> nat \<Rightarrow> (nat \<Rightarrow> llm_outcome) \<Rightarrow> review_input list \<Rightarrow> int \<Rightarrow> int \<Rightarrow> batch_state
     \<Rightarrow> batch_state option" where
  "windowed_loop analyze pause llm revs concurrency i st =
     (if i < int (length revs) then
        windowed_loop analyze pause llm revs concurrency (i + concurrency)
          (if i + concurrency < int (length revs)
           then pause_between pause
                  (run_window analyze llm (js_slice revs i (i + concurrency)) st)
           else run_window analyze llm (js_slice revs i (i + concurrency)) st)
      else Some st)"

text \<open>
  The same loop cut off after \<open>k\<close> iterations: the loop variable and the state reached,
  whether or not the loop ever ends.
\<close>

fun windowed_prefix ::
  "(llm_outcome \<Rightarrow> jsstring \<Rightarrow> jsnum option \<Rightarrow> exn + ReviewAnalysisResult)
     \<Rightarrow> nat \<Rightarrow> (nat \<Rightarrow> llm_outcome) \<Rightarrow> review_input list \<Rightarrow> int \<Rightarrow> nat \<Rightarrow> int \<Rightarrow> batch_state
     \<Rightarrow> int \<times> batch_state" where
  "windowed_prefix analyze pause llm revs concurrency 0 i st = (i, st)"
| "windowed_prefix analyze pause llm revs concurrency (Suc k) i st =
     (if i < int (length revs) then
        windowed_prefix analyze pause llm revs concurrency k (i + concurrency)
          (if i + concurrency < int (length revs)
           then pause_between pause
                  (run_window analyze llm (js_slice revs i (i + concurrency)) st)
           else run_window analyze llm (js_slice revs i (i + concurrency)) st)
      else (i, st))"

definition batchAnalyzeReviewsFast_run ::
  "js_engine \<Rightarrow> (nat \<Rightarrow> llm_outcome) \<Rightarrow> review_input list \<Rightarrow> int \<Rightarrow> batch_state option" where
  "batchAnalyzeReviewsFast_run E llm revs concurrency =
     windowed_loop (analyzeReview E) 500 llm revs concurrency 0 initial_batch_state"

definition batchAnalyzeReviewsFast ::
  "js_engine \<Rightarrow> (nat \<Rightarrow> llm_outcome) \<Rightarrow> review_input list \<Rightarrow> int \<Rightarrow> analysis_item list option" where
  "batchAnalyzeReviewsFast E llm revs concurrency =
     map_option bs_results (batchAnalyzeReviewsFast_run E llm revs concurrency)"

definition batchAnalyzeReviewsUltraFast_run ::
  "js_engine \<Rightarrow> (nat \<Rightarrow> llm_outcome) \<Rightarrow> review_input list \<Rightarrow> int \<Rightarrow> batch_state option" where
  "batchAnalyzeReviewsUltraFast_run E llm revs concurrency =
     windowed_loop (analyzeReviewFast E) 200 llm revs concurrency 0 initial_batch_state"

definition batchAnalyzeReviewsUltraFast ::
  "js_engine \<Rightarrow> (nat \<Rightarrow> llm_outcome) \<Rightarrow> review_input list \<Rightarrow> int \<Rightarrow> analysis_item list option" where
  "batchAnalyzeReviewsUltraFast E llm revs concurrency =
     map_option bs_results (batchAnalyzeReviewsUltraFast_run E llm revs concurrency)"

text \<open>
  \<open>batchAnalyzeReviews\<close>: one review after the other; a review whose analysis throws is
  skipped, the others are followed by a pause of one second.
\<close>

fun sequential_loop ::
  "js_engine \<Rightarrow> (nat \<Rightarrow> llm_outcome) \<Rightarrow> review_input list \<Rightarrow> batch_state \<Rightarrow> batch_state" where
  "sequential_loop E llm [] st = st"
| "sequential_loop E llm (review # rest) st =
     (case analyzeReview E (llm (bs_calls st)) (rev_text review) (rev_rating review) of
        Inr a \<Rightarrow>
          sequential_loop E llm rest
            \<lparr>bs_results = bs_results st @ [\<lparr>item_id = rev_id review, analysis = a\<rparr>],
             bs_calls = bs_calls st + 1,
             bs_events = bs_events st @ [Issued (rev_id review), Settled, Delay 1000]\<rparr>
      | Inl e \<Rightarrow>
          sequential_loop E llm rest
            \<lparr>bs_results = bs_results st,
             bs_calls = bs_calls st + 1,
             bs_events = bs_events st @ [Issued (rev_id review), Settled]\<rparr>)"

definition batchAnalyzeReviews ::
  "js_engine \<Rightarrow> (nat \<Rightarrow> llm_outcome) \<Rightarrow> review_input list \<Rightarrow> analysis_item list" where
  "batchAnalyzeReviews E llm revs = bs_results (sequential_loop E llm revs initial_batch_state)"

text \<open>
  The events of a run in windows of \<open>c\<close> reviews: the requests of a window, the point
  where all of them have settled, and a pause before the next window if there is one.
\<close>

function window_trace :: "nat \<Rightarrow> nat \<Rightarrow> review_input list \<Rightarrow> batch_event list" where
  "window_trace pause c revs =
     (if revs = [] \<or> c = 0 then []
      else map (\<lambda>review. Issued (rev_id review)) (take c revs) @ [Settled]
           @ (if drop c revs = [] then [] else Delay pause # window_trace pause c (drop c revs)))"
  by pat_completeness auto
termination
  by (relation "measure (\<lambda>(pause, c, revs). length revs)") auto

declare window_trace.simps [simp del]

text \<open>
  The largest number of requests in flight at any point of a trace that starts with
  \<open>cur\<close> requests in flight: a request is in flight from its issue until the next point
  at which all requests have settled.
\<close>

fun peak_in_flight :: "nat \<Rightarrow> batch_event list \<Rightarrow> nat" where
  "peak_in_flight cur [] = cur"
| "peak_in_flight cur (Issued x # es) = max (Suc cur) (peak_in_flight (Suc cur) es)"
| "peak_in_flight cur (Settled # es) = max cur (peak_in_flight 0 es)"
| "peak_in_flight cur (Delay ms # es) = max cur (peak_in_flight cur es)"

text \<open>No pause happens while a request is in flight.\<close>

fun pauses_when_idle :: "nat \<Rightarrow> batch_event list \<Rightarrow> bool" where
  "pauses_when_idle cur [] = True"
| "pauses_when_idle cur (Issued x # es) = pauses_when_idle (Suc cur) es"
| "pauses_when_idle cur (Settled # es) = pauses_when_idle 0 es"
| "pauses_when_idle cur (Delay ms # es) = (cur = 0 \<and> pauses_when_idle cur es)"

section \<open>The routes that drive a project\<close>

text \<open>The status of a project; \<open>failed\<close> stands for the status \<open>'error'\<close>.\<close>

datatype project_status = pending | processing | completed | failed

text \<open>
  The writes a route makes: the insertion of the project, an update of some columns of
  the project row, and the insertion of one analysis (with whether it was saved).
\<close>

datatype db_write =
  InsertProject project_status
  | UpdateProject "project_status option" "nat option" "nat option"
  | InsertAnalysis jsstring bool

text \<open>The statuses that a sequence of writes sets on the project row, in order.\<close>

fun statuses :: "db_write list \<Rightarrow> project_status list" where
  "statuses [] = []"
| "statuses (UpdateProject (Some s) t a # ws) = s # statuses ws"
| "statuses (w # ws) = statuses ws"

text \<open>The rows that insertions of analyses were attempted for.\<close>

fun analysed_ids :: "db_write list \<Rightarrow> jsstring list" where
  "analysed_ids [] = []"
| "analysed_ids (InsertAnalysis rid saved # ws) = rid # analysed_ids ws"
| "analysed_ids (w # ws) = analysed_ids ws"

text \<open>The body of a JSON response, and a run of a route.\<close>

record response_body =
  http_status :: nat
  resp_success :: "bool option"
  resp_message :: "jsstring option"
  resp_reviewCount :: "nat option"
  resp_skipped :: "nat option"
  resp_skippedCount :: "nat option"
  resp_totalReviews :: "nat option"
  resp_error :: "jsstring option"

record route_run =
  response :: response_body
  writes :: "db_write list"
  llm_requests :: nat

definition json_response :: response_body where
  "json_response =
     \<lparr>http_status = 200, resp_success = Some True, resp_message = None, resp_reviewCount = None,
      resp_skipped = None, resp_skippedCount = None, resp_totalReviews = None,
      resp_error = None\<rparr>"

definition error_response :: "nat \<Rightarrow> jsstring \<Rightarrow> response_body" where
  "error_response code m =
     \<lparr>http_status = code, resp_success = None, resp_message = None, resp_reviewCount = None,
      resp_skipped = None, resp_skippedCount = None, resp_totalReviews = None,
      resp_error = Some m\<rparr>"

text \<open>A natural number inside a template literal: its decimal digits.\<close>

function show_nat :: "nat \<Rightarrow> jsstring" where
  "show_nat n = (if n < 10 then [0x30 + of_nat n] else show_nat (n div 10) @ [0x30 + of_nat (n mod 10)])"
  by pat_completeness auto
termination
  by (relation "measure id") auto

declare show_nat.simps [simp del]

subsection \<open>Analysis of a project\<close>

text \<open>
  The result \<open>{data, error}\<close> of the query for the rows of a project, and of the insertion
  of one analysis, which may also throw.
\<close>

datatype reviews_query = QueryError jsstring | QueryRows "review_row list option"

datatype insert_outcome = Saved | Refused | InsertThrew

text \<open>\<open>!review.review_analyses || review.review_analyses.length === 0\<close>\<close>

definition lacks_analysis :: "review_row \<Rightarrow> bool" where
  "lacks_analysis review =
     (case review_analyses review of None \<Rightarrow> True | Some found \<Rightarrow> length found = 0)"

text \<open>
  \<open>{id: review.id, text: review.original_text, rating: review.rating}\<close>. A row that
  passed the filter has a text.
\<close>

definition to_review_input :: "review_row \<Rightarrow> review_input" where
  "to_review_input review =
     \<lparr>rev_id = review_id review,
      rev_text = (case original_text review of Some t \<Rightarrow> t | None \<Rightarrow> []),
      rev_rating = rating review\<rparr>"

text \<open>
  The loop that saves the results: \<open>inserts k\<close> is the outcome of the \<open>k\<close>-th insertion;
  progress is written at every tenth saved analysis.
\<close>

fun save_loop ::
  "(nat \<Rightarrow> insert_outcome) \<Rightarrow> nat \<Rightarrow> analysis_item list \<Rightarrow> nat \<Rightarrow> db_write list
     \<Rightarrow> nat \<times> db_write list" where
  "save_loop inserts k [] analyzedCount ws = (analyzedCount, ws)"
| "save_loop inserts k (result # rest) analyzedCount ws =
     (case inserts k of
        Saved \<Rightarrow>
          save_loop inserts (k + 1) rest (analyzedCount + 1)
            (ws @ [InsertAnalysis (item_id result) True]
                @ (if (analyzedCount + 1) mod 10 = 0
                   then [UpdateProject None None (Some (analyzedCount + 1))] else []))
      | _ \<Rightarrow>
          save_loop inserts (k + 1) rest analyzedCount
            (ws @ [InsertAnalysis (item_id result) False]))"

text \<open>
  The handlers of \<open>POST /project/:projectId\<close> and \<open>POST /project/:projectId/ultra-fast\<close>,
  which differ in the batch they call (both with a concurrency of 10) and in the final
  response. The result is \<open>None\<close> when the handler does not return.
\<close>

definition analysis_route ::
  "bool \<Rightarrow> (jsstring \<Rightarrow> jsstring) \<Rightarrow> js_engine \<Rightarrow> (nat \<Rightarrow> llm_outcome) \<Rightarrow> reviews_query
     \<Rightarrow> (nat \<Rightarrow> insert_outcome) \<Rightarrow> route_run option" where
  "analysis_route ultra lc E llm query inserts =
     (case query of
        QueryError m \<Rightarrow>
          Some \<lparr>response = error_response 500 m, writes = [], llm_requests = 0\<rparr>
      | QueryRows None \<Rightarrow>
          Some \<lparr>response = json_response\<lparr>resp_message := Some (js ''No reviews found''),
                                           resp_reviewCount := Some 0\<rparr>,
                writes = [], llm_requests = 0\<rparr>
      | QueryRows (Some rows) \<Rightarrow>
          if length rows = 0 then
            Some \<lparr>response = json_response\<lparr>resp_message := Some (js ''No reviews found''),
                                             resp_reviewCount := Some 0\<rparr>,
                  writes = [], llm_requests = 0\<rparr>
          else
            let unanalyzedReviews = filter lacks_analysis rows;
                filteredReviews = filterReviewsForAnalysis lc unanalyzedReviews;
                skippedCount = length unanalyzedReviews - length filteredReviews
            in if length filteredReviews = 0 then
                 Some \<lparr>response =
                         json_response
                           \<lparr>resp_message :=
                              Some (js ''All '' @ show_nat (length unanalyzedReviews)
                                    @ js '' reviews already analyzed or filtered out''),
                            resp_reviewCount := Some 0,
                            resp_skipped := Some skippedCount\<rparr>,
                       writes = [], llm_requests = 0\<rparr>
               else
                 (case (if ultra
                        then batchAnalyzeReviewsUltraFast_run E llm
                               (map to_review_input filteredReviews) 10
                        else batchAnalyzeReviewsFast_run E llm
                               (map to_review_input filteredReviews) 10) of
                    None \<Rightarrow> None
                  | Some st \<Rightarrow>
                      (case save_loop inserts 0 (bs_results st) 0 [] of
                         (analyzedCount, saved) \<Rightarrow>
                           Some \<lparr>response =
                                   (if ultra then
                                      json_response
                                        \<lparr>resp_message :=
                                           Some (js ''Successfully analyzed ''
                                                 @ show_nat analyzedCount @ js '' reviews''),
                                         resp_reviewCount := Some analyzedCount\<rparr>
                                    else
                                      json_response
                                        \<lparr>resp_message :=
                                           Some (js ''Successfully analyzed ''
                                                 @ show_nat analyzedCount
                                                 @ js '' reviews (skipped ''
                                                 @ show_nat skippedCount
                                                 @ js '' low-value reviews for faster processing)''),
                                         resp_reviewCount := Some analyzedCount,
                                         resp_skippedCount := Some skippedCount,
                                         resp_totalReviews := Some (length unanalyzedReviews)\<rparr>),
                                 writes =
                                   [UpdateProject (Some processing) None None] @ saved
                                   @ [UpdateProject (Some completed) None (Some analyzedCount)],
                                 llm_requests = bs_calls st\<rparr>)))"

definition analyzeProjectRoute ::
  "(jsstring \<Rightarrow> jsstring) \<Rightarrow> js_engine \<Rightarrow> (nat \<Rightarrow> llm_outcome) \<Rightarrow> reviews_query
     \<Rightarrow> (nat \<Rightarrow> insert_outcome) \<Rightarrow> route_run option" where
  "analyzeProjectRoute = analysis_route False"

definition analyzeProjectUltraFastRoute ::
  "(jsstring \<Rightarrow> jsstring) \<Rightarrow> js_engine \<Rightarrow> (nat \<Rightarrow> llm_outcome) \<Rightarrow> reviews_query
     \<Rightarrow> (nat \<Rightarrow> insert_outcome) \<Rightarrow> route_run option" where
  "analyzeProjectUltraFastRoute = analysis_route True"

text \<open>The reviews of a query that an analysis run works on.\<close>

definition candidates :: "(jsstring \<Rightarrow> jsstring) \<Rightarrow> review_row list \<Rightarrow> review_row list" where
  "candidates lc rows = filterReviewsForAnalysis lc (filter lacks_analysis rows)"

subsection \<open>Creation of a project with a scrape\<close>

text \<open>
  The body of \<open>POST /\<close> (the user is authenticated), and its handler, given whether
  the insertion of the project succeeds and what \<open>scrapeWithOutscraper\<close> returns; that
  function catches its own exceptions.
\<close>

record create_request =
  req_name :: "jsstring option"
  req_googleUrl :: "jsstring option"

definition truthy_string :: "jsstring option \<Rightarrow> bool" where
  "truthy_string s = (case s of None \<Rightarrow> False | Some t \<Rightarrow> t \<noteq> [])"

definition createProjectRoute :: "create_request \<Rightarrow> bool \<Rightarrow> provider_result \<Rightarrow> route_run" where
  "createProjectRoute req insert_ok scrapingResult =
     (if \<not> truthy_string (req_name req) then
        \<lparr>response = error_response 400 (js ''Project name is required''), writes = [],
         llm_requests = 0\<rparr>
      else if \<not> insert_ok then
        \<lparr>response = error_response 500 (js ''insert failed''), writes = [], llm_requests = 0\<rparr>
      else if truthy_string (req_googleUrl req) then
        (let finalStatus = (if success scrapingResult then completed else failed);
             reviewCount = (case reviews scrapingResult of Some rs \<Rightarrow> length rs | None \<Rightarrow> 0)
         in \<lparr>response = json_response,
             writes = [InsertProject pending,
                       UpdateProject (Some processing) None None,
                       UpdateProject (Some finalStatus) (Some reviewCount) (Some 0)],
             llm_requests = 0\<rparr>)
      else \<lparr>response = json_response, writes = [InsertProject pending], llm_requests = 0\<rparr>)"

section \<open>Concrete inputs\<close>



text \<open>
  Reviews for the ingestion filter: one in lowercase Cyrillic (\<open>otlichnyj servis\<close>, an
  excellent service, 15 code units of which 14 are letters), one in uppercase Latin,
  and one made of digits and symbols.
\<close>

definition cyrillic_review :: "unit review_text_scheme" where
  "cyrillic_review =
     \<lparr>original_text =
        Some [0x43E, 0x442, 0x43B, 0x438, 0x447, 0x43D, 0x44B, 0x439, 0x20,
              0x441, 0x435, 0x440, 0x432, 0x438, 0x441],
      rating = Some (Fin 5)\<rparr>"

definition uppercase_review :: "unit review_text_scheme" where
  "uppercase_review =
     \<lparr>original_text = Some (js ''GREAT FOOD AND FRIENDLY STAFF''), rating = Some (Fin 5)\<rparr>"

definition symbols_review :: "unit review_text_scheme" where
  "symbols_review = \<lparr>original_text = Some (js ''1234567890 !!!''), rating = Some (Fin 1)\<rparr>"

text \<open>Provider results for the hybrid scraper.\<close>

definition stored :: "string \<Rightarrow> string \<Rightarrow> stored_review" where
  "stored t src =
     \<lparr>original_text = Some (js t), rating = Some (Fin 5), project_id = js ''p1'',
      author_name = Some (js ''Ann''), review_date = Some (js ''2024-01-01''), source = js src\<rparr>"

definition places_failed :: provider_result where
  "places_failed = \<lparr>success = False, reviews = None, error = Some (js ''Google API error: DENIED'')\<rparr>"

definition places_one :: provider_result where
  "places_one =
     \<lparr>success = True, reviews = Some [stored ''Great food and friendly staff'' ''google_api''],
      error = None\<rparr>"

definition scraped_twice :: provider_result where
  "scraped_twice =
     \<lparr>success = True,
      reviews = Some [stored ''Slow service, cold coffee'' ''google_scraping_improved'',
                      stored ''Slow service, cold coffee'' ''google_scraping_improved''],
      error = None\<rparr>"

definition scraped_two :: provider_result where
  "scraped_two =
     \<lparr>success = True,
      reviews = Some [stored ''great food and friendly staff!'' ''google_scraping_improved'',
                      stored ''Slow service, cold coffee'' ''google_scraping_improved''],
      error = None\<rparr>"

text \<open>A job that is pending on the first two polls and ready on the third.\<close>

definition ready_on_third :: "nat \<Rightarrow> nat poll_reply" where
  "ready_on_third k =
     (if k < 3 then Reply 200 (Some (js ''Pending'')) 0 else Reply 200 (Some (js ''Success'')) 7)"

text \<open>A job whose polls are all rejected.\<close>

definition never_answers :: "nat \<Rightarrow> nat poll_reply" where
  "never_answers k = Threw"

text \<open>
  An engine for running the analysis on concrete replies: its \<open>JSON.parse\<close> accepts the
  three texts \<open>null\<close>, \<open>{}\<close> and \<open>{"primary_confidence":{"toString":1}}\<close> only, and its
  \<open>parseFloat\<close> reads numbers and the string \<open>1.5\<close>, and throws on an object that has a
  \<open>toString\<close> member.
\<close>

definition demo_engine :: js_engine where
  "demo_engine =
     \<lparr>JSON_parse =
        (\<lambda>s. if s = js ''null'' then Some JNull
              else if s = js ''{}'' then Some (JObj [])
              else if s = js ''{\"primary_confidence\":{\"toString\":1}}''
              then Some (JObj [(js ''primary_confidence'', JObj [(js ''toString'', JNum (Fin 1))])])
              else None),
      parseFloat_of =
        (\<lambda>v. case v of
                Some (JNum n) \<Rightarrow> Inr n
              | Some (JStr s) \<Rightarrow> Inr (if s = js ''1.5'' then Fin (3 / 2) else NaN)
              | Some (JObj members) \<Rightarrow>
                  (if js ''toString'' \<in> fst ` set members then Inl TypeError else Inr NaN)
              | _ \<Rightarrow> Inr NaN)\<rparr>"

text \<open>Three reviews for a batch, and a model none of whose requests succeeds.\<close>

definition three_reviews :: "review_input list" where
  "three_reviews =
     [\<lparr>rev_id = js ''r1'', rev_text = js ''Great service, loved it!'', rev_rating = Some (Fin 5)\<rparr>,
      \<lparr>rev_id = js ''r2'', rev_text = js ''Terrible wait and cold food'', rev_rating = Some (Fin 1)\<rparr>,
      \<lparr>rev_id = js ''r3'', rev_text = js ''It was fine, nothing special'', rev_rating = None\<rparr>]"

definition llm_down :: "nat \<Rightarrow> llm_outcome" where
  "llm_down k = LlmThrows"

text \<open>Rows of a project: one already analysed, one too short to analyse, one to analyse.\<close>

definition analysed_row :: review_row where
  "analysed_row =
     \<lparr>original_text = Some (js ''Great food and friendly staff''), rating = Some (Fin 5),
      review_id = js ''r1'', review_analyses = Some [js ''a1'']\<rparr>"

definition short_row :: review_row where
  "short_row =
     \<lparr>original_text = Some (js ''Nice!''), rating = Some (Fin 4),
      review_id = js ''r2'', review_analyses = Some []\<rparr>"

definition fresh_row :: review_row where
  "fresh_row =
     \<lparr>original_text = Some (js ''Slow service, cold coffee''), rating = Some (Fin 2),
      review_id = js ''r3'', review_analyses = None\<rparr>"

definition all_saved :: "nat \<Rightarrow> insert_outcome" where
  "all_saved k = Saved"
section \<open>Properties of the ingestion filter\<close>

text \<open>
  The filter is a function of its input alone; it keeps the order of the reviews, and
  filtering twice is filtering once.
\<close>

lemma filterReviewsForAnalysis_subseq: "subseq (filterReviewsForAnalysis lc rs) rs"
  by (simp add: filterReviewsForAnalysis_def)

lemma filterReviewsForAnalysis_idempotent:
  "filterReviewsForAnalysis lc (filterReviewsForAnalysis lc rs) = filterReviewsForAnalysis lc rs"
  by (simp add: filterReviewsForAnalysis_def)

lemma filterReviewsForAnalysis_pointwise:
  "filterReviewsForAnalysis lc (xs @ ys)
     = filterReviewsForAnalysis lc xs @ filterReviewsForAnalysis lc ys"
  by (simp add: filterReviewsForAnalysis_def)

text \<open>
  The code and the specification agree on the text they test and on the stoplist. They
  differ on the letters they count: the code counts the code units \<open>a\<close> to \<open>z\<close> only.
\<close>

lemma lowered_text_normalized: "lowered_text lc review = normalized_as_claimed lc review"
  by (simp add: lowered_text_def normalized_as_claimed_def split: option.splits)

lemma spamPatterns_stoplist: "set spamPatterns = stoplist_as_claimed"
  by (simp add: spamPatterns_def stoplist_as_claimed_def)

lemma is_a_z_alphabetic: "is_a_z c \<Longrightarrow> is_alphabetic c"
  by (simp add: is_a_z_def is_alphabetic_def)

lemma latin_count:
  "list_all (\<lambda>c. is_a_z c \<or> \<not> is_alphabetic c) s \<Longrightarrow> length (filter is_a_z s) = alphabetic_count s"
  unfolding alphabetic_count_def
  by (induction s) (auto simp: is_a_z_alphabetic)

lemma a_z_count_le: "length (filter is_a_z s) \<le> alphabetic_count s"
  unfolding alphabetic_count_def
  by (induction s) (auto simp: is_a_z_alphabetic)

text \<open>
  On the reviews whose letters, once lowercased, are all among \<open>a\<close> to \<open>z\<close>, the filter
  drops exactly what the specification says; on all reviews it drops at least that.
\<close>

lemma keep_review_latin:
  "latin_lowered lc review \<Longrightarrow> keep_review lc review = (\<not> dropped_as_claimed lc review)"
  by (simp add: keep_review_def dropped_as_claimed_def latin_lowered_def Let_def list_ex_iff
      lowered_text_normalized spamPatterns_stoplist latin_count)

lemma dropped_as_claimed_dropped:
  "dropped_as_claimed lc review \<Longrightarrow> \<not> keep_review lc review"
  using a_z_count_le [of "normalized_as_claimed lc review"]
  by (auto simp: keep_review_def dropped_as_claimed_def Let_def list_ex_iff
      lowered_text_normalized spamPatterns_stoplist)

lemma filterReviewsForAnalysis_latin:
  "list_all (latin_lowered lc) rs \<Longrightarrow>
     filterReviewsForAnalysis lc rs = filter (\<lambda>r. \<not> dropped_as_claimed lc r) rs"
  unfolding filterReviewsForAnalysis_def
  by (rule filter_cong) (auto simp: list_all_iff keep_review_latin)

text \<open>A review whose lowercased text has no code unit from \<open>a\<close> to \<open>z\<close> is dropped.\<close>

lemma no_a_z_dropped:
  "list_all (\<lambda>c. \<not> is_a_z c) (lowered_text lc review) \<Longrightarrow> \<not> keep_review lc review"
proof -
  assume "list_all (\<lambda>c. \<not> is_a_z c) (lowered_text lc review)"
  then have "filter is_a_z (lowered_text lc review) = []"
    by (simp add: list_all_iff filter_empty_conv)
  then show ?thesis by (simp add: keep_review_def Let_def)
qed

text \<open>
  Claim C6 at three reviews, with the lowercasing of the ASCII letters. The filter
  keeps the review in uppercase Latin, whose lowercased text has 25 letters \<open>a\<close> to \<open>z\<close>,
  and drops the review of digits and symbols, as the claim says. It also drops the
  review in Cyrillic, whose 15 characters include 14 letters and which the claim keeps:
  the test \<open>text.replace(/[^a-z]/g, '').length < 5\<close> counts no letter of another script,
  against its own comment, \<open>Skip reviews that are mostly numbers or symbols\<close>.
\<close>

theorem filterReviewsForAnalysis_drops_cyrillic:
  "filterReviewsForAnalysis ascii_toLowerCase [uppercase_review, cyrillic_review, symbols_review]
     = [uppercase_review]
   \<and> filter (\<lambda>r. \<not> dropped_as_claimed ascii_toLowerCase r)
       [uppercase_review, cyrillic_review, symbols_review]
     = [uppercase_review, cyrillic_review]
   \<and> length (normalized_as_claimed ascii_toLowerCase cyrillic_review) = 15
   \<and> alphabetic_count (normalized_as_claimed ascii_toLowerCase cyrillic_review) = 14"
  by (simp add: filterReviewsForAnalysis_def keep_review_def lowered_text_def
      dropped_as_claimed_def normalized_as_claimed_def alphabetic_count_def
      stoplist_as_claimed_def is_alphabetic_def
      uppercase_review_def cyrillic_review_def symbols_review_def
      ascii_toLowerCase_def js_def is_a_z_def spamPatterns_def)

section \<open>Properties of the similarity rule\<close>


















section \<open>Properties of the hybrid scraper\<close>

lemma similar_rows_to_insert [simp]:
  "similar_rows lc e (to_insert pid s) = similar_rows lc e s"
  by (simp add: similar_rows_def to_insert_def)

lemma hybrid_reviews_cases:
  "hybrid_reviews (scrapeAllReviewsHybrid lc ok pid placesResult scrapingResult) =
     provided placesResult
     @ (if ok then map (to_insert pid) (newReviews_of lc (provided placesResult) (provided scrapingResult))
        else [])"
  by (auto simp: scrapeAllReviewsHybrid_def provided_def insertReviews_def newReviews_of_def
      to_insert_def [abs_def] Let_def split: bool.splits option.splits prod.splits)

text \<open>
  Claim C5, amended. The merged list is no longer than the two provider lists together.
  It starts with every review of the structured API; the reviews after them come from
  the scraped list, in its order, and none of them is judged similar to any review of
  the structured API.
\<close>

theorem scrapeAllReviewsHybrid_merge:
  "length (hybrid_reviews (scrapeAllReviewsHybrid lc ok pid placesResult scrapingResult))
     \<le> length (provided placesResult) + length (provided scrapingResult)
   \<and> take (length (provided placesResult))
        (hybrid_reviews (scrapeAllReviewsHybrid lc ok pid placesResult scrapingResult))
       = provided placesResult
   \<and> subseq (map original_text (drop (length (provided placesResult))
                (hybrid_reviews (scrapeAllReviewsHybrid lc ok pid placesResult scrapingResult))))
             (map original_text (provided scrapingResult))
   \<and> (\<forall>s \<in> set (drop (length (provided placesResult))
                (hybrid_reviews (scrapeAllReviewsHybrid lc ok pid placesResult scrapingResult))).
        \<forall>e \<in> set (provided placesResult). \<not> similar_rows lc e s)"
proof -
  let ?P = "provided placesResult" and ?S = "provided scrapingResult"
  let ?added = "(if ok then map (to_insert pid) (newReviews_of lc ?P ?S) else [])"
  have out: "hybrid_reviews (scrapeAllReviewsHybrid lc ok pid placesResult scrapingResult) = ?P @ ?added"
    by (rule hybrid_reviews_cases)
  have len: "length ?added \<le> length ?S"
    by (simp add: newReviews_of_def)
  have texts: "map original_text (map (to_insert pid) xs) = map original_text xs" for xs
    by (simp add: to_insert_def)
  have "subseq (map original_text (newReviews_of lc ?P ?S)) (map original_text ?S)"
    unfolding newReviews_of_def by (intro subseq_map subseq_filter_left)
  then have sub: "subseq (map original_text ?added) (map original_text ?S)"
    by (simp only: texts if_distrib [of "map original_text"] list.map split: if_split) simp
  have dis: "\<forall>s \<in> set ?added. \<forall>e \<in> set ?P. \<not> similar_rows lc e s"
    by (auto simp: newReviews_of_def list_ex_iff)
  show ?thesis
    unfolding out using len sub dis by simp
qed


lemma areSimilarReviews_same_text:
  "t \<noteq> [] \<Longrightarrow> areSimilarReviews lc t t"
  by (simp add: areSimilarReviews_def js_includes_def)

text \<open>
  Claim C5 as stated fails: scraped reviews are compared with the reviews of the
  structured API only, so two scraped reviews with one text are both kept.
\<close>

theorem scrapeAllReviewsHybrid_counterexample:
  "has_similar_pair ascii_toLowerCase
     (hybrid_reviews
        (scrapeAllReviewsHybrid ascii_toLowerCase True (js ''p1'') places_failed scraped_twice))"
proof -
  have sim: "similar_rows ascii_toLowerCase (to_insert (js ''p1'') (stored ''Slow service, cold coffee'' ''google_scraping_improved''))
     (to_insert (js ''p1'') (stored ''Slow service, cold coffee'' ''google_scraping_improved''))"
    by (simp add: similar_rows_def to_insert_def stored_def areSimilarReviews_same_text js_def)
  have out: "hybrid_reviews
        (scrapeAllReviewsHybrid ascii_toLowerCase True (js ''p1'') places_failed scraped_twice)
     = [to_insert (js ''p1'') (stored ''Slow service, cold coffee'' ''google_scraping_improved''),
        to_insert (js ''p1'') (stored ''Slow service, cold coffee'' ''google_scraping_improved'')]"
    by (simp add: hybrid_reviews_cases provided_def places_failed_def scraped_twice_def newReviews_of_def)
  show ?thesis
    unfolding out has_similar_pair_def using sim by (simp add: upt_rec)
qed

text \<open>
  Claim C5, amended, on one API review and two scraped ones, the first of which repeats
  the API review in another case and with one more character.
\<close>

theorem scrapeAllReviewsHybrid_merge_witness:
  "hybrid_reviews
     (scrapeAllReviewsHybrid ascii_toLowerCase True (js ''p1'') places_one scraped_two)
   = [stored ''Great food and friendly staff'' ''google_api'',
      to_insert (js ''p1'') (stored ''Slow service, cold coffee'' ''google_scraping_improved'')]
   \<and> \<not> similar_rows ascii_toLowerCase (stored ''Great food and friendly staff'' ''google_api'')
         (to_insert (js ''p1'') (stored ''Slow service, cold coffee'' ''google_scraping_improved''))"
proof -
  have s1: "similar_rows ascii_toLowerCase (stored ''Great food and friendly staff'' ''google_api'')
        (stored ''great food and friendly staff!'' ''google_scraping_improved'')"
    by (simp add: similar_rows_def stored_def areSimilarReviews_def js_includes_def js_def
        ascii_toLowerCase_def sublist_code)
  have s2: "\<not> similar_rows ascii_toLowerCase (stored ''Great food and friendly staff'' ''google_api'')
        (stored ''Slow service, cold coffee'' ''google_scraping_improved'')"
    by (simp add: similar_rows_def stored_def areSimilarReviews_def js_includes_def js_def
        ascii_toLowerCase_def sublist_code split_whitespace_def is_whitespace_def
        exceeds_times_0_7_def times_0_7_def round53_def bit_length_pos)
  have out: "hybrid_reviews
     (scrapeAllReviewsHybrid ascii_toLowerCase True (js ''p1'') places_one scraped_two)
   = [stored ''Great food and friendly staff'' ''google_api'',
      to_insert (js ''p1'') (stored ''Slow service, cold coffee'' ''google_scraping_improved'')]"
    using s1 s2
    by (simp add: hybrid_reviews_cases provided_def places_one_def scraped_two_def newReviews_of_def)
  from scrapeAllReviewsHybrid_merge [of ascii_toLowerCase True "js ''p1''" places_one scraped_two]
  show ?thesis
    unfolding out by (simp add: provided_def places_one_def)
qed


section \<open>Properties of the polling loop\<close>

lemma Success_neq_Failed: "js ''Success'' \<noteq> js ''Failed''"
  by (simp add: js_def)

text \<open>The loop, started at any attempt within the budget.\<close>

lemma poll_loop_correct:
  "a \<le> Suc M \<Longrightarrow>
   \<exists>n. a \<le> Suc n \<and> n \<le> M
       \<and> attempts_made replies a n reqs ws (poll_loop replies M a reqs ws)
       \<and> outcome_at replies M a n (poll_returned (poll_loop replies M a reqs ws))"
proof (induction replies M a reqs ws rule: poll_loop.induct)
  case (1 replies M a reqs ws)
  show ?case
  proof (cases "a \<le> M")
    case False
    with "1.prems" have a: "a = Suc M" by simp
    have "attempts_made replies a M reqs ws (poll_loop replies M a reqs ws)"
      using a by (subst poll_loop.simps) (simp add: attempts_made_def)
    moreover have "outcome_at replies M a M (poll_returned (poll_loop replies M a reqs ws))"
      using a by (subst poll_loop.simps) (simp add: outcome_at_def is_timeout_def)
    ultimately show ?thesis using a by (intro exI [of _ M]) simp
  next
    case le: True
    show ?thesis
    proof (cases "replies a")
      case Threw
      show ?thesis
      proof (cases "a = M")
        case True
        have "attempts_made replies a a reqs ws (poll_loop replies M a reqs ws)"
          using True Threw by (subst poll_loop.simps) (simp add: attempts_made_def is_pending_def)
        moreover have "outcome_at replies M a a (poll_returned (poll_loop replies M a reqs ws))"
          using True Threw by (subst poll_loop.simps) (simp add: outcome_at_def is_timeout_def)
        ultimately show ?thesis using True by (intro exI [of _ a]) simp
      next
        case False
        have step: "poll_loop replies M a reqs ws = poll_loop replies M (a + 1) (reqs @ [a]) ws"
          using le False Threw by (subst poll_loop.simps) simp
        from le False have "a + 1 \<le> Suc M" by simp
        from "1.IH"(1) [OF le Threw False this]
        obtain n where n: "a + 1 \<le> Suc n" "n \<le> M"
          "attempts_made replies (a + 1) n (reqs @ [a]) ws (poll_loop replies M (a + 1) (reqs @ [a]) ws)"
          "outcome_at replies M (a + 1) n (poll_returned (poll_loop replies M (a + 1) (reqs @ [a]) ws))"
          by blast
        from n(1) have an: "a \<le> n" by simp
        then have upt: "[a..<Suc n] = a # [a + 1..<Suc n]" "[a..<n] = (if a < n then a # [a + 1..<n] else [])"
          by (simp_all add: upt_conv_Cons)
        have "attempts_made replies a n reqs ws (poll_loop replies M a reqs ws)"
          using n(3) Threw an unfolding step attempts_made_def upt
          by (auto simp: is_pending_def)
        moreover have "outcome_at replies M a n (poll_returned (poll_loop replies M a reqs ws))"
          using n(4) le an False unfolding step outcome_at_def by auto
        ultimately show ?thesis using an n(2) by (intro exI [of _ n]) simp
      qed
    next
      case (Reply status job d)
      show ?thesis
      proof (cases "status = 200 \<and> job = Some (js ''Success'')")
        case True
        have "attempts_made replies a a reqs ws (poll_loop replies M a reqs ws)"
          using True Reply le by (subst poll_loop.simps) (simp add: attempts_made_def is_pending_def)
        moreover have "outcome_at replies M a a (poll_returned (poll_loop replies M a reqs ws))"
          using True Reply le by (subst poll_loop.simps) (simp add: outcome_at_def is_success_def)
        ultimately show ?thesis using le by (intro exI [of _ a]) simp
      next
        case ns: False
        show ?thesis
        proof (cases "job = Some (js ''Failed'')")
          case True
          have "attempts_made replies a a reqs ws (poll_loop replies M a reqs ws)"
            using True ns Reply le
            by (subst poll_loop.simps) (auto simp: attempts_made_def is_pending_def js_def)
          moreover have "outcome_at replies M a a (poll_returned (poll_loop replies M a reqs ws))"
            using True ns Reply le
            by (subst poll_loop.simps) (auto simp: outcome_at_def is_failed_def js_def)
          ultimately show ?thesis using le by (intro exI [of _ a]) simp
        next
          case False
          have pend: "is_pending (replies a)" using ns False Reply by (simp add: is_pending_def)
          have step: "poll_loop replies M a reqs ws
              = poll_loop replies M (a + 1) (reqs @ [a]) (ws @ [(a, min (5000 * a) 30000)])"
            using le False ns Reply by (subst poll_loop.simps) auto
          from le have "a + 1 \<le> Suc M" by simp
          from "1.IH"(2) [OF le Reply ns False this]
          obtain n where n: "a + 1 \<le> Suc n" "n \<le> M"
            "attempts_made replies (a + 1) n (reqs @ [a]) (ws @ [(a, min (5000 * a) 30000)])
               (poll_loop replies M (a + 1) (reqs @ [a]) (ws @ [(a, min (5000 * a) 30000)]))"
            "outcome_at replies M (a + 1) n
               (poll_returned (poll_loop replies M (a + 1) (reqs @ [a]) (ws @ [(a, min (5000 * a) 30000)])))"
            by blast
          from n(1) have an: "a \<le> n" by simp
          then have upt: "[a..<Suc n] = a # [a + 1..<Suc n]" "[a..<n] = (if a < n then a # [a + 1..<n] else [])"
            by (simp_all add: upt_conv_Cons)
          have "attempts_made replies a n reqs ws (poll_loop replies M a reqs ws)"
            using n(3) pend an unfolding step attempts_made_def upt by auto
          moreover have "outcome_at replies M a n (poll_returned (poll_loop replies M a reqs ws))"
            using n(4) le an pend unfolding step outcome_at_def
            by (cases "a = M") auto
          ultimately show ?thesis using an n(2) by (intro exI [of _ n]) simp
        qed
      qed
    qed
  qed
qed


text \<open>
  Claim C8. With the default budget, \<open>pollForResults\<close> returns after at most 12
  attempts, numbered 1 to \<open>n\<close>. It sleeps \<open>min (5000 * k) 30000\<close> ms after each pending
  attempt \<open>k\<close> and at no other time, and it returns the data of the first reply that
  reports \<open>Success\<close>, or the failure of the first reply that reports \<open>Failed\<close>, or a
  timeout once attempt 12 was rejected or pending.
\<close>

theorem pollForResults_terminates:
  "\<exists>n. n \<le> 12
       \<and> attempts_made replies 1 n [] [] (pollForResults_default replies)
       \<and> outcome_at replies 12 1 n (poll_returned (pollForResults_default replies))
       \<and> length (poll_requests (pollForResults_default replies)) = n
       \<and> list_all (\<lambda>(k, ms). ms = min (5000 * k) 30000 \<and> ms \<le> 30000)
            (poll_waits (pollForResults_default replies))"
proof -
  have "(1::nat) \<le> Suc 12" by simp
  from poll_loop_correct [OF this, of replies "[]" "[]"]
  obtain n where n: "n \<le> 12"
    "attempts_made replies 1 n [] [] (pollForResults_default replies)"
    "outcome_at replies 12 1 n (poll_returned (pollForResults_default replies))"
    unfolding pollForResults_default_def pollForResults_def by blast
  from n(2) have len: "length (poll_requests (pollForResults_default replies)) = n"
    by (simp add: attempts_made_def)
  from n(2) have "list_all (\<lambda>(k, ms). ms = min (5000 * k) 30000 \<and> ms \<le> 30000)
            (poll_waits (pollForResults_default replies))"
    by (simp add: attempts_made_def list_all_iff)
  with n len show ?thesis by blast
qed

text \<open>Claim C8 on a job that is ready on the third poll, and on one that never answers.\<close>

theorem pollForResults_terminates_witness:
  "pollForResults_default ready_on_third
     = \<lparr>poll_returned = \<lparr>poll_success = True, poll_data = Some 7, poll_error = None\<rparr>,
        poll_requests = [1, 2, 3], poll_waits = [(1, 5000), (2, 10000)]\<rparr>
   \<and> length (poll_requests (pollForResults_default ready_on_third)) \<le> 12
   \<and> is_timeout (poll_returned (pollForResults_default never_answers))
   \<and> poll_requests (pollForResults_default never_answers) = [1, 2, 3, 4, 5, 6, 7, 8, 9, 10, 11, 12]
   \<and> poll_waits (pollForResults_default never_answers) = []"
proof -
  from pollForResults_terminates [of ready_on_third]
  have "length (poll_requests (pollForResults_default ready_on_third)) \<le> 12"
    by auto
  moreover have "pollForResults_default ready_on_third
     = \<lparr>poll_returned = \<lparr>poll_success = True, poll_data = Some 7, poll_error = None\<rparr>,
        poll_requests = [1, 2, 3], poll_waits = [(1, 5000), (2, 10000)]\<rparr>"
    by (simp add: pollForResults_default_def pollForResults_def poll_loop.simps ready_on_third_def
        js_def)
  moreover have "pollForResults_default never_answers
     = \<lparr>poll_returned = \<lparr>poll_success = False, poll_data = None,
           poll_error = Some (js ''Polling timeout - results not ready'')\<rparr>,
        poll_requests = [1, 2, 3, 4, 5, 6, 7, 8, 9, 10, 11, 12], poll_waits = []\<rparr>"
    by (simp add: pollForResults_default_def pollForResults_def poll_loop.simps never_answers_def)
  ultimately show ?thesis by (simp add: is_timeout_def)
qed


section \<open>Properties of the analysis of one review\<close>

lemma or_default_not_NaN: "d \<noteq> NaN \<Longrightarrow> or_default x d \<noteq> NaN"
  by (cases x) (simp_all add: or_default_def)

lemma clamp_in_range:
  "lo \<le> hi \<Longrightarrow> x \<noteq> NaN \<Longrightarrow> in_range lo hi (Math_max (Fin lo) (Math_min (Fin hi) x))"
  by (cases x) (auto simp: in_range_def)

lemma string_items_valid: "valid_list d \<Longrightarrow> valid_list (string_items x d)"
  by (auto simp: string_items_def valid_list_def list_all_iff
      split: option.splits json.splits dest: in_set_takeD)

lemma inferCategoryFromRating_valid: "inferCategoryFromRating r \<in> set validCategories"
  by (simp add: inferCategoryFromRating_def validCategories_def split: option.splits)

lemma bind_exn_InrE:
  assumes "bind_exn m f = Inr v"
  obtains x where "m = Inr x" and "f x = Inr v"
  using assms by (cases m) (simp_all add: bind_exn_def)

lemma category_valid:
  "(case category of
      Some (JStr s) \<Rightarrow> if s \<in> set validCategories then s else inferCategoryFromRating r
    | _ \<Rightarrow> inferCategoryFromRating r) \<in> set validCategories"
  by (simp add: inferCategoryFromRating_valid split: option.splits json.splits)

lemma validate_body_valid:
  assumes "validate_body pf result r = Inr v"
  shows "valid_result v"
proof -
  have g: "valid_list [JStr s]" for s by (simp add: valid_list_def)
  have c1: "in_range 0 1 (Math_max (Fin 0) (Math_min (Fin 1) (or_default x (Fin (1 / 2)))))" for x
    by (rule clamp_in_range) (simp_all add: or_default_not_NaN)
  have c2: "in_range (- 1) 1 (Math_max (Fin (- 1)) (Math_min (Fin 1) (or_default x (Fin 0))))" for x
    by (rule clamp_in_range) (simp_all add: or_default_not_NaN)
  from assms show ?thesis
    unfolding validate_body_def Let_def
    by (elim bind_exn_InrE)
       (auto simp: valid_result_def c1 c2 g string_items_valid category_valid
          simp del: set_simps)
qed

lemma createFallbackAnalysis_fields:
  "primary_category (createFallbackAnalysis t r) \<in> set validCategories
   \<and> in_range 0 1 (primary_confidence (createFallbackAnalysis t r))
   \<and> valid_list (secondary_categories (createFallbackAnalysis t r))
   \<and> valid_list (themes (createFallbackAnalysis t r))
   \<and> valid_list (key_phrases (createFallbackAnalysis t r))"
  by (simp add: createFallbackAnalysis_def Let_def inferCategoryFromRating_valid
      valid_list_def in_range_def)

lemma createFallbackAnalysis_sentiment:
  assumes "rating_in_scale r"
  shows "in_range (- 1) 1 (sentiment_score (createFallbackAnalysis t r))"
proof -
  have s: "in_range (- 1) 1 (case r of None \<Rightarrow> Fin 0 | Some x \<Rightarrow> if truthy_num x then sub_div x 3 2 else Fin 0)"
    using assms
    by (auto simp: rating_in_scale_def in_range_def split: option.splits jsnum.splits)
  show ?thesis
    using s by (simp add: createFallbackAnalysis_def Let_def)
qed

lemma createFallbackAnalysis_valid:
  "rating_in_scale r \<Longrightarrow> valid_result (createFallbackAnalysis t r)"
  using createFallbackAnalysis_fields [of t r] createFallbackAnalysis_sentiment [of r t]
  by (simp add: valid_result_def)

lemma validateAndSanitizeResult_cases:
  "validateAndSanitizeResult pf result t r = createFallbackAnalysis t r
   \<or> valid_result (validateAndSanitizeResult pf result t r)"
  by (auto simp: validateAndSanitizeResult_def validate_body_valid split: sum.splits)

lemma analyzeReview_cases:
  "\<exists>v. analyzeReview E reply t r = Inr v \<and> (v = createFallbackAnalysis t r \<or> valid_result v)"
  using validateAndSanitizeResult_cases
  by (auto simp: analyzeReview_def analyze_body_def Let_def
      split: sum.splits llm_outcome.splits option.splits if_splits)

lemma analyzeReviewFast_cases:
  "\<exists>v. analyzeReviewFast E reply t r = Inr v \<and> (v = createFallbackAnalysis t r \<or> valid_result v)"
  using validateAndSanitizeResult_cases
  by (auto simp: analyzeReviewFast_def analyze_body_def Let_def
      split: sum.splits llm_outcome.splits option.splits if_splits)

lemma analyzeReview_returns: "\<exists>v. analyzeReview E reply t r = Inr v"
  by (simp add: analyzeReview_def split: sum.splits)

lemma analyzeReviewFast_returns: "\<exists>v. analyzeReviewFast E reply t r = Inr v"
  by (simp add: analyzeReviewFast_def split: sum.splits)

lemma valid_apart_from_sentiment_fallback: "valid_apart_from_sentiment (createFallbackAnalysis t r)"
  using createFallbackAnalysis_fields [of t r] by (simp add: valid_apart_from_sentiment_def)

lemma valid_result_apart: "valid_result v \<Longrightarrow> valid_apart_from_sentiment v"
  by (simp add: valid_result_def valid_apart_from_sentiment_def)

text \<open>
  Claim C1. For every review text, every rating, every reply of the model (none,
  empty, malformed or well-formed) and every behaviour of \<open>JSON.parse\<close> and \<open>parseFloat\<close>,
  \<open>analyzeReview\<close> and \<open>analyzeReviewFast\<close> return a result and do not throw, and the
  result has a category among positive, negative and neutral, a confidence in [0, 1] and
  three lists of at most 5 strings. For every rating of the domain of reviews, which is
  absent or from 1 to 5, the sentiment lies in [-1, 1] as well.
\<close>

theorem analyzeReview_never_throws_valid:
  "(\<exists>v. analyzeReview E reply t r = Inr v
        \<and> valid_apart_from_sentiment v \<and> (rating_in_scale r \<longrightarrow> valid_result v))
   \<and> (\<exists>v. analyzeReviewFast E reply t r = Inr v
        \<and> valid_apart_from_sentiment v \<and> (rating_in_scale r \<longrightarrow> valid_result v))"
proof -
  from analyzeReview_cases [of E reply t r] obtain v
    where v: "analyzeReview E reply t r = Inr v" "v = createFallbackAnalysis t r \<or> valid_result v"
    by blast
  from analyzeReviewFast_cases [of E reply t r] obtain w
    where w: "analyzeReviewFast E reply t r = Inr w" "w = createFallbackAnalysis t r \<or> valid_result w"
    by blast
  have "valid_apart_from_sentiment v \<and> (rating_in_scale r \<longrightarrow> valid_result v)"
    using v(2) by (auto simp: valid_apart_from_sentiment_fallback valid_result_apart
        createFallbackAnalysis_valid)
  moreover have "valid_apart_from_sentiment w \<and> (rating_in_scale r \<longrightarrow> valid_result w)"
    using w(2) by (auto simp: valid_apart_from_sentiment_fallback valid_result_apart
        createFallbackAnalysis_valid)
  ultimately show ?thesis using v(1) w(1) by simp
qed

text \<open>
  The sentiment of the fallback analysis is \<open>(rating - 3) / 2\<close>, which the code does not
  clamp: it relies on the rating being from 1 to 5, as its comment says and as the
  \<open>reviews\<close> table enforces.
\<close>

lemma createFallbackAnalysis_rating_10:
  "analyzeReview demo_engine LlmThrows (js ''Great service, loved it!'') (Some (Fin 10))
     = Inr (createFallbackAnalysis (js ''Great service, loved it!'') (Some (Fin 10)))
   \<and> sentiment_score (createFallbackAnalysis (js ''Great service, loved it!'') (Some (Fin 10)))
     = Fin (7 / 2)"
  by (simp add: analyzeReview_def analyze_body_def createFallbackAnalysis_def Let_def)

text \<open>
  A reply that parses to an object whose confidence has no primitive value: \<open>parseFloat\<close>
  throws inside the validation, which returns the fallback analysis.
\<close>

lemma clean_object_text:
  "cleanJsonResponse (js ''{\"primary_confidence\":{\"toString\":1}}'')
     = js ''{\"primary_confidence\":{\"toString\":1}}''"
  by (simp add: cleanJsonResponse_def from_first_brace_def to_last_brace_def trim_def
      is_whitespace_def js_def)

lemma analyzeReview_parseFloat_throws:
  "analyzeReview demo_engine (LlmContent (Some (js ''{\"primary_confidence\":{\"toString\":1}}'')))
       (js ''Great service, loved it!'') (Some (Fin 5))
     = Inr (createFallbackAnalysis (js ''Great service, loved it!'') (Some (Fin 5)))"
  by (simp add: analyzeReview_def analyze_body_def clean_object_text Let_def)
     (simp add: demo_engine_def validateAndSanitizeResult_def validate_body_def bind_exn_def
        get_prop_def js_def)

text \<open>
  Claim C1 on a reply that is no JSON at all: the regex extraction finds nothing and
  the defaults are validated.
\<close>

theorem analyzeReview_never_throws_valid_witness:
  "analyzeReview demo_engine (LlmContent (Some (js ''I cannot answer that'')))
       (js ''Great service, loved it!'') (Some (Fin 5))
     = Inr \<lparr>primary_category = js ''neutral'', primary_confidence = Fin (1 / 2),
            secondary_categories = [JStr (js ''general'')],
            themes = [JStr (js ''review analysis'')],
            sentiment_score = Fin 0,
            key_phrases = [JStr (js ''analysis'')],
            summary = js ''Great service, loved it!...''\<rparr>
   \<and> valid_result
        \<lparr>primary_category = js ''neutral'', primary_confidence = Fin (1 / 2),
            secondary_categories = [JStr (js ''general'')],
            themes = [JStr (js ''review analysis'')],
            sentiment_score = Fin 0,
            key_phrases = [JStr (js ''analysis'')],
            summary = js ''Great service, loved it!...''\<rparr>"
proof -
  have r: "rating_in_scale (Some (Fin 5))" by (simp add: rating_in_scale_def in_range_def)
  have e: "analyzeReview demo_engine (LlmContent (Some (js ''I cannot answer that'')))
       (js ''Great service, loved it!'') (Some (Fin 5))
     = Inr \<lparr>primary_category = js ''neutral'', primary_confidence = Fin (1 / 2),
            secondary_categories = [JStr (js ''general'')],
            themes = [JStr (js ''review analysis'')],
            sentiment_score = Fin 0,
            key_phrases = [JStr (js ''analysis'')],
            summary = js ''Great service, loved it!...''\<rparr>"
    by (simp add: analyzeReview_def analyze_body_def demo_engine_def cleanJsonResponse_def
        from_first_brace_def to_last_brace_def trim_def is_whitespace_def js_def
        attemptFallbackParsing_def key_then_def category_value_def chars_value_def
        is_digit_or_dot_def validateAndSanitizeResult_def validate_body_def bind_exn_def
        get_prop_def validCategories_def or_default_def string_items_def Let_def)
  from analyzeReview_never_throws_valid [of demo_engine
      "LlmContent (Some (js ''I cannot answer that''))" "js ''Great service, loved it!''"
      "Some (Fin 5)"] r
  show ?thesis unfolding e by simp
qed

section \<open>Properties of the batch analysis\<close>

text \<open>The windowed loop does not return when the concurrency is below 1.\<close>

lemma windowed_loop_never_returns:
  assumes "windowed_loop analyze pause llm revs c i st = Some y"
  shows "\<not> (c \<le> 0 \<and> i < int (length revs))"
proof (rule windowed_loop.raw_induct
    [where P = "\<lambda>analyze pause llm revs c i st y. \<not> (c \<le> 0 \<and> i < int (length revs))",
     OF _ assms])
  fix loop :: "(llm_outcome \<Rightarrow> jsstring \<Rightarrow> jsnum option \<Rightarrow> exn + ReviewAnalysisResult)
     \<Rightarrow> nat \<Rightarrow> (nat \<Rightarrow> llm_outcome) \<Rightarrow> review_input list \<Rightarrow> int \<Rightarrow> int \<Rightarrow> batch_state
     \<Rightarrow> batch_state option"
  fix analyze pause llm and revs :: "review_input list" and c i :: int and st y
  assume ih: "\<And>analyze pause llm revs c i st y.
      loop analyze pause llm revs c i st = Some y \<Longrightarrow> \<not> (c \<le> 0 \<and> i < int (length revs))"
  assume eq: "(if i < int (length revs)
      then loop analyze pause llm revs c (i + c)
            (if i + c < int (length revs)
             then pause_between pause (run_window analyze llm (js_slice revs i (i + c)) st)
             else run_window analyze llm (js_slice revs i (i + c)) st)
      else Some st) = Some y"
  show "\<not> (c \<le> 0 \<and> i < int (length revs))"
  proof
    assume a: "c \<le> 0 \<and> i < int (length revs)"
    with eq obtain st' where "loop analyze pause llm revs c (i + c) st' = Some y"
      by (auto split: if_splits)
    from ih [OF this] a show False by simp
  qed
qed

lemma windowed_loop_diverges:
  "c \<le> 0 \<Longrightarrow> i < int (length revs) \<Longrightarrow> windowed_loop analyze pause llm revs c i st = None"
  using windowed_loop_never_returns [of analyze pause llm revs c i st]
  by (cases "windowed_loop analyze pause llm revs c i st") auto

text \<open>The loop continues from the state that any number of its iterations reaches.\<close>

lemma windowed_loop_prefix:
  "windowed_loop analyze pause llm revs c i st
     = (case windowed_prefix analyze pause llm revs c k i st of
          (i', st') \<Rightarrow> windowed_loop analyze pause llm revs c i' st')"
proof (induction k arbitrary: i st)
  case 0
  show ?case by simp
next
  case (Suc k)
  show ?case
  proof (cases "i < int (length revs)")
    case True
    then show ?thesis
      by (subst windowed_loop.simps) (simp add: Suc.IH [symmetric])
  next
    case False
    then show ?thesis by simp
  qed
qed

lemma windowed_loop_Nil:
  "windowed_loop analyze pause llm [] c 0 st = Some st"
  by (subst windowed_loop.simps) simp

lemma js_slice_window:
  "0 \<le> i \<Longrightarrow> 0 < c \<Longrightarrow> js_slice xs i (i + c) = take (nat c) (drop (nat i) xs)"
proof -
  assume i: "0 \<le> i" and c: "0 < c"
  let ?len = "int (length xs)"
  have k: "(if i < 0 then max (?len + i) 0 else min i ?len) = min i ?len" using i by simp
  have f: "(if i + c < 0 then max (?len + (i + c)) 0 else min (i + c) ?len) = min (i + c) ?len"
    using i c by simp
  have s: "js_slice xs i (i + c) = take (nat (min (i + c) ?len - min i ?len)) (drop (nat (min i ?len)) xs)"
    unfolding js_slice_def Let_def k f ..
  show ?thesis
  proof (cases "i + c \<le> ?len")
    case True
    then have "nat (min (i + c) ?len - min i ?len) = nat c" "nat (min i ?len) = nat i"
      using i c by simp_all
    then show ?thesis unfolding s by simp
  next
    case False
    show ?thesis
    proof (cases "i \<le> ?len")
      case True
      then have e: "nat (min (i + c) ?len - min i ?len) = length xs - nat i" "nat (min i ?len) = nat i"
        using False i c by simp_all
      have "length xs - nat i \<le> nat c" using False i c by linarith
      then show ?thesis unfolding s e by simp
    next
      case gt: False
      then have "drop (nat i) xs = []" "drop (nat (min i ?len)) xs = []" using i by simp_all
      then show ?thesis unfolding s by simp
    qed
  qed
qed

lemma all_items_append:
  "all_items analyze llm (xs @ ys) n
     = all_items analyze llm xs n @ all_items analyze llm ys (n + length xs)"
proof -
  have "[n..<n + length xs + length ys]
      = [n..<n + length xs] @ [n + length xs..<n + length xs + length ys]"
    by (rule upt_add_eq_append) simp
  moreover have "n + length (xs @ ys) = n + length xs + length ys"
    by simp
  ultimately have u: "[n..<n + length (xs @ ys)]
      = [n..<n + length xs] @ [n + length xs..<n + length xs + length ys]"
    by (simp only:)
  have l: "length xs = length [n..<n + length xs]" by simp
  show ?thesis
    unfolding all_items_def u zip_append [OF l] map_append ..
qed

lemma map_fst_zip_upt: "map (\<lambda>p. f (fst p)) (zip xs [n..<n + length xs]) = map f xs"
proof -
  have "map fst (zip xs [n..<n + length xs]) = xs" by (rule map_fst_zip) simp
  then have "map f (map fst (zip xs [n..<n + length xs])) = map f xs" by (rule arg_cong)
  then show ?thesis by (simp only: map_map comp_def)
qed

lemma all_items_ids: "map item_id (all_items analyze llm xs n) = map rev_id xs"
proof -
  have "map item_id (all_items analyze llm xs n)
      = map (\<lambda>p. rev_id (fst p)) (zip xs [n..<n + length xs])"
    by (auto simp: all_items_def analyze_item_def split: sum.splits)
  then show ?thesis by (simp only: map_fst_zip_upt)
qed

lemma all_items_Nil [simp]: "all_items analyze llm [] n = []"
  by (simp add: all_items_def)

lemma window_trace_step:
  "0 < c \<Longrightarrow> xs \<noteq> [] \<Longrightarrow>
   window_trace pause c xs
     = map (\<lambda>review. Issued (rev_id review)) (take c xs) @ [Settled]
       @ (if drop c xs = [] then [] else Delay pause # window_trace pause c (drop c xs))"
  by (subst window_trace.simps) simp

lemma window_trace_Nil [simp]: "window_trace pause c [] = []"
  by (subst window_trace.simps) simp

text \<open>With a concurrency of at least 1 the loop returns, and this is its final state.\<close>

lemma windowed_loop_run:
  assumes "0 < c" "0 \<le> i"
  shows "windowed_loop analyze pause llm revs c i st
     = Some \<lparr>bs_results = bs_results st @ all_items analyze llm (drop (nat i) revs) (bs_calls st),
             bs_calls = bs_calls st + length (drop (nat i) revs),
             bs_events = bs_events st @ window_trace pause (nat c) (drop (nat i) revs)\<rparr>"
  using assms(2)
proof (induction "length revs - nat i" arbitrary: i st rule: less_induct)
  case less
  show ?case
  proof (cases "i < int (length revs)")
    case False
    then have "drop (nat i) revs = []" using less.prems by simp
    then show ?thesis
      using False by (subst windowed_loop.simps) (simp add: all_items_def)
  next
    case True
    let ?D = "drop (nat i) revs"
    let ?W = "take (nat c) ?D"
    let ?st1 = "run_window analyze llm ?W st"
    let ?st2 = "(if i + c < int (length revs) then pause_between pause ?st1 else ?st1)"
    have D: "?D \<noteq> []" using True less.prems by simp
    have slice: "js_slice revs i (i + c) = ?W"
      using less.prems assms(1) by (rule js_slice_window)
    have step: "windowed_loop analyze pause llm revs c i st
        = windowed_loop analyze pause llm revs c (i + c) ?st2"
      using True by (subst windowed_loop.simps) (simp add: slice)
    have dd: "drop (nat (i + c)) revs = drop (nat c) ?D"
      using less.prems assms(1) by (simp add: nat_add_distrib add.commute)
    have smaller: "length revs - nat (i + c) < length revs - nat i"
      using True less.prems assms(1) by linarith
    have nonneg: "0 \<le> i + c" using less.prems assms(1) by simp
    have rest: "(drop (nat c) ?D = []) = (\<not> i + c < int (length revs))"
      using less.prems assms(1) by auto
    have items: "all_items analyze llm ?D (bs_calls st)
        = all_items analyze llm ?W (bs_calls st)
          @ all_items analyze llm (drop (nat c) ?D) (bs_calls st + length ?W)"
      using all_items_append [of analyze llm ?W "drop (nat c) ?D" "bs_calls st"]
      unfolding append_take_drop_id .
    have len: "length ?D = length ?W + length (drop (nat c) ?D)"
      by (simp only: length_append [symmetric] append_take_drop_id)
    have trace: "window_trace pause (nat c) ?D
        = map (\<lambda>review. Issued (rev_id review)) ?W @ [Settled]
          @ (if i + c < int (length revs)
             then Delay pause # window_trace pause (nat c) (drop (nat c) ?D) else [])"
      using window_trace_step [of "nat c" ?D pause] assms(1) D rest by auto
    show ?thesis
    proof (cases "i + c < int (length revs)")
      case more: True
      show ?thesis
        unfolding step less.hyps [OF smaller nonneg] dd items trace len
        using more by (simp add: run_window_def pause_between_def)
    next
      case last: False
      with rest have e: "drop (nat c) ?D = []" by simp
      show ?thesis
        unfolding step less.hyps [OF smaller nonneg] dd items trace len e
        using last by (simp add: run_window_def)
    qed
  qed
qed

lemma sequential_loop_ids:
  "map item_id (bs_results (sequential_loop E llm revs st))
     = map item_id (bs_results st) @ map rev_id revs"
proof (induction revs arbitrary: st)
  case Nil
  then show ?case by simp
next
  case (Cons review rest)
  obtain a where "analyzeReview E (llm (bs_calls st)) (rev_text review) (rev_rating review) = Inr a"
    using analyzeReview_returns by blast
  then show ?case by (simp add: Cons.IH)
qed

lemma peak_in_flight_window:
  "peak_in_flight cur (map (\<lambda>review. Issued (rev_id review)) xs @ Settled # es)
     = max (cur + length xs) (peak_in_flight 0 es)"
  by (induction xs arbitrary: cur) auto

lemma pauses_when_idle_window:
  "pauses_when_idle cur (map (\<lambda>review. Issued (rev_id review)) xs @ Settled # es)
     = pauses_when_idle 0 es"
  by (induction xs arbitrary: cur) auto

lemma window_trace_bounded:
  "0 < c \<Longrightarrow> peak_in_flight 0 (window_trace pause c revs) \<le> c
      \<and> pauses_when_idle 0 (window_trace pause c revs)"
proof (induction pause c revs rule: window_trace.induct)
  case (1 pause c revs)
  show ?case
  proof (cases "revs = []")
    case True
    then show ?thesis by simp
  next
    case False
    note step = window_trace_step [OF "1.prems" False, of pause]
    show ?thesis
    proof (cases "drop c revs = []")
      case True
      then show ?thesis
        unfolding step using peak_in_flight_window [of 0 "take c revs" "[]"]
          pauses_when_idle_window [of 0 "take c revs" "[]"]
        by simp
    next
      case d: False
      from "1.IH" [OF _ d "1.prems"] False "1.prems"
      have ih: "peak_in_flight 0 (window_trace pause c (drop c revs)) \<le> c"
        "pauses_when_idle 0 (window_trace pause c (drop c revs))"
        by simp_all
      show ?thesis
        unfolding step
        using ih d peak_in_flight_window [of 0 "take c revs" "Delay pause # window_trace pause c (drop c revs)"]
          pauses_when_idle_window [of 0 "take c revs" "Delay pause # window_trace pause c (drop c revs)"]
        by simp
    qed
  qed
qed


lemma batchAnalyzeReviewsFast_run_eq:
  "0 < c \<Longrightarrow>
   batchAnalyzeReviewsFast_run E llm revs c
     = Some \<lparr>bs_results = all_items (analyzeReview E) llm revs 0, bs_calls = length revs,
             bs_events = window_trace 500 (nat c) revs\<rparr>"
  using windowed_loop_run [of c 0 "analyzeReview E" 500 llm revs initial_batch_state]
  by (simp add: batchAnalyzeReviewsFast_run_def initial_batch_state_def)

lemma batchAnalyzeReviewsUltraFast_run_eq:
  "0 < c \<Longrightarrow>
   batchAnalyzeReviewsUltraFast_run E llm revs c
     = Some \<lparr>bs_results = all_items (analyzeReviewFast E) llm revs 0, bs_calls = length revs,
             bs_events = window_trace 200 (nat c) revs\<rparr>"
  using windowed_loop_run [of c 0 "analyzeReviewFast E" 200 llm revs initial_batch_state]
  by (simp add: batchAnalyzeReviewsUltraFast_run_def initial_batch_state_def)

lemma all_items_length [simp]: "length (all_items analyze llm xs n) = length xs"
  by (simp add: all_items_def)

text \<open>
  Claim C2, amended. For every list of reviews and every concurrency of at least 1, each
  of the three batch operations returns a list with exactly one result for each input
  record: as many results as records, with the same ids counted with their repetitions.
\<close>

theorem batch_one_result_per_id:
  assumes "0 < c"
  shows "length (batchAnalyzeReviews E llm revs) = length revs
       \<and> mset (map item_id (batchAnalyzeReviews E llm revs)) = mset (map rev_id revs)
       \<and> (\<exists>out. batchAnalyzeReviewsFast E llm revs c = Some out
              \<and> length out = length revs
              \<and> mset (map item_id out) = mset (map rev_id revs))
       \<and> (\<exists>out. batchAnalyzeReviewsUltraFast E llm revs c = Some out
              \<and> length out = length revs
              \<and> mset (map item_id out) = mset (map rev_id revs))"
proof -
  have ids: "map item_id (batchAnalyzeReviews E llm revs) = map rev_id revs"
    by (simp add: batchAnalyzeReviews_def sequential_loop_ids initial_batch_state_def)
  then have "length (map item_id (batchAnalyzeReviews E llm revs)) = length (map rev_id revs)"
    by (rule arg_cong)
  then have len: "length (batchAnalyzeReviews E llm revs) = length revs" by simp
  have m: "mset (map item_id (all_items analyze llm revs 0)) = mset (map rev_id revs)" for analyze
    by (simp only: all_items_ids)
  have fast: "batchAnalyzeReviewsFast E llm revs c = Some (all_items (analyzeReview E) llm revs 0)"
    by (simp add: batchAnalyzeReviewsFast_def batchAnalyzeReviewsFast_run_eq [OF assms])
  have ultra: "batchAnalyzeReviewsUltraFast E llm revs c
      = Some (all_items (analyzeReviewFast E) llm revs 0)"
    by (simp add: batchAnalyzeReviewsUltraFast_def batchAnalyzeReviewsUltraFast_run_eq [OF assms])
  have "mset (map item_id (batchAnalyzeReviews E llm revs)) = mset (map rev_id revs)"
    by (simp only: ids)
  with len m fast ultra show ?thesis by (simp del: mset_map)
qed

text \<open>
  Claim C2 as stated fails for a concurrency below 1: the loop index never reaches the
  length of a non-empty list, and the function does not return.
\<close>

theorem batch_one_result_per_id_counterexample:
  "batchAnalyzeReviewsFast demo_engine llm_down three_reviews 0 = None
   \<and> batchAnalyzeReviewsUltraFast demo_engine llm_down three_reviews (- 1) = None"
  by (simp add: batchAnalyzeReviewsFast_def batchAnalyzeReviewsUltraFast_def
      batchAnalyzeReviewsFast_run_def batchAnalyzeReviewsUltraFast_run_def
      windowed_loop_diverges three_reviews_def)

text \<open>Claim C2, amended, on three reviews in windows of two, with every request failing.\<close>

theorem batch_one_result_per_id_witness:
  "\<exists>out. batchAnalyzeReviewsFast demo_engine llm_down three_reviews 2 = Some out
         \<and> length out = 3
         \<and> mset (map item_id out) = {#js ''r1'', js ''r2'', js ''r3''#}"
proof -
  from batch_one_result_per_id [of 2 demo_engine llm_down three_reviews]
  obtain out where o: "batchAnalyzeReviewsFast demo_engine llm_down three_reviews 2 = Some out"
    "length out = length three_reviews"
    "mset (map item_id out) = mset (map rev_id three_reviews)"
    by auto
  have "length three_reviews = 3"
    "mset (map rev_id three_reviews) = {#js ''r1'', js ''r2'', js ''r3''#}"
    by (simp_all add: three_reviews_def)
  with o show ?thesis by (simp del: mset_map)
qed

text \<open>
  Claim C10, amended. For every list of reviews and every concurrency of at least 1,
  which includes the defaults 5 and 15, the three batch operations return their results
  in the order of the input: the i-th result carries the i-th input id.
\<close>

theorem batch_results_in_input_order:
  assumes "0 < c"
  shows "map item_id (batchAnalyzeReviews E llm revs) = map rev_id revs
       \<and> (\<exists>out. batchAnalyzeReviewsFast E llm revs c = Some out
              \<and> map item_id out = map rev_id revs)
       \<and> (\<exists>out. batchAnalyzeReviewsUltraFast E llm revs c = Some out
              \<and> map item_id out = map rev_id revs)"
  by (simp add: batchAnalyzeReviews_def sequential_loop_ids initial_batch_state_def
      batchAnalyzeReviewsFast_def batchAnalyzeReviewsUltraFast_def
      batchAnalyzeReviewsFast_run_eq [OF assms] batchAnalyzeReviewsUltraFast_run_eq [OF assms]
      all_items_ids)

text \<open>
  Claim C10 as stated fails for a concurrency below 1: on three reviews the windowed
  batches return no list at all with the concurrency 0 or -2; with -2 the first window
  is \<open>reviews.slice(0, -2)\<close>, and the results never grow beyond that of the first review.
\<close>

theorem input_order_counterexample:
  "batchAnalyzeReviewsUltraFast demo_engine llm_down three_reviews 0 = None
   \<and> batchAnalyzeReviewsFast demo_engine llm_down three_reviews (- 2) = None
   \<and> map item_id
        (bs_results (snd (windowed_prefix (analyzeReview demo_engine) 500 llm_down three_reviews
                            (- 2) 3 0 initial_batch_state)))
     = [js ''r1'']"
proof -
  have d: "batchAnalyzeReviewsUltraFast demo_engine llm_down three_reviews 0 = None"
    "batchAnalyzeReviewsFast demo_engine llm_down three_reviews (- 2) = None"
    by (simp_all add: batchAnalyzeReviewsUltraFast_def batchAnalyzeReviewsUltraFast_run_def
        batchAnalyzeReviewsFast_def batchAnalyzeReviewsFast_run_def
        windowed_loop_diverges three_reviews_def)
  have e: "map item_id
        (bs_results (snd (windowed_prefix (analyzeReview demo_engine) 500 llm_down three_reviews
                            (- 2) 3 0 initial_batch_state)))
     = [js ''r1'']"
    by (simp add: numeral_3_eq_3 run_window_def pause_between_def
        initial_batch_state_def all_items_ids)
       (simp add: three_reviews_def js_slice_def)
  from d e show ?thesis by simp
qed

text \<open>
  Claim C10, amended, on three reviews with the default concurrency 5 of the fast batch.
\<close>

theorem batch_results_in_input_order_witness:
  "\<exists>out. batchAnalyzeReviewsFast demo_engine llm_down three_reviews 5 = Some out
         \<and> map item_id out = [js ''r1'', js ''r2'', js ''r3'']"
proof -
  from batch_results_in_input_order [of 5 demo_engine llm_down three_reviews]
  obtain out where o: "batchAnalyzeReviewsFast demo_engine llm_down three_reviews 5 = Some out"
    "map item_id out = map rev_id three_reviews"
    by auto
  have "map rev_id three_reviews = [js ''r1'', js ''r2'', js ''r3'']"
    by (simp add: three_reviews_def)
  with o show ?thesis by simp
qed

text \<open>
  Claim C7, amended. For a concurrency \<open>c\<close> of at least 1, the fast and the ultra-fast batch
  process the reviews in consecutive windows of \<open>c\<close> reviews (the last may be shorter):
  the requests of a window are issued, then all awaited; a pause of 500 ms (fast) or
  200 ms (ultra-fast) follows each window but the last, while no request is in flight;
  and at no point are more than \<open>c\<close> requests in flight.
\<close>

theorem windows_bound_requests_in_flight:
  assumes "0 < c"
  shows "(\<exists>st. batchAnalyzeReviewsFast_run E llm revs c = Some st
              \<and> bs_events st = window_trace 500 (nat c) revs
              \<and> peak_in_flight 0 (bs_events st) \<le> nat c
              \<and> pauses_when_idle 0 (bs_events st))
       \<and> (\<exists>st. batchAnalyzeReviewsUltraFast_run E llm revs c = Some st
              \<and> bs_events st = window_trace 200 (nat c) revs
              \<and> peak_in_flight 0 (bs_events st) \<le> nat c
              \<and> pauses_when_idle 0 (bs_events st))"
proof -
  have "0 < nat c" using assms by simp
  from window_trace_bounded [OF this] show ?thesis
    by (simp add: batchAnalyzeReviewsFast_run_eq [OF assms]
        batchAnalyzeReviewsUltraFast_run_eq [OF assms])
qed

text \<open>
  Claim C7 as stated fails for a concurrency below 1. With the concurrency -1 the first
  window of three reviews is \<open>reviews.slice(0, -1)\<close>, two requests in flight where the
  claim allows none; the windows that follow are empty, and the run never ends.
\<close>

theorem windows_counterexample:
  "batchAnalyzeReviewsFast_run demo_engine llm_down three_reviews (- 1) = None
   \<and> bs_events (snd (windowed_prefix (analyzeReview demo_engine) 500 llm_down three_reviews (- 1)
                        2 0 initial_batch_state))
     = [Issued (js ''r1''), Issued (js ''r2''), Settled, Delay 500, Settled, Delay 500]
   \<and> peak_in_flight 0
        (bs_events (snd (windowed_prefix (analyzeReview demo_engine) 500 llm_down three_reviews
                           (- 1) 2 0 initial_batch_state))) = 2"
proof -
  have d: "batchAnalyzeReviewsFast_run demo_engine llm_down three_reviews (- 1) = None"
    by (simp add: batchAnalyzeReviewsFast_run_def windowed_loop_diverges three_reviews_def)
  have e: "bs_events (snd (windowed_prefix (analyzeReview demo_engine) 500 llm_down three_reviews (- 1)
                        2 0 initial_batch_state))
     = [Issued (js ''r1''), Issued (js ''r2''), Settled, Delay 500, Settled, Delay 500]"
    by (simp add: numeral_2_eq_2 run_window_def pause_between_def
        initial_batch_state_def)
       (simp add: three_reviews_def js_slice_def)
  show ?thesis unfolding e using d by simp
qed

text \<open>Claim C7, amended, on three reviews in windows of two.\<close>

theorem windows_bound_requests_in_flight_witness:
  "\<exists>st. batchAnalyzeReviewsFast_run demo_engine llm_down three_reviews 2 = Some st
        \<and> bs_events st
            = [Issued (js ''r1''), Issued (js ''r2''), Settled, Delay 500,
               Issued (js ''r3''), Settled]
        \<and> peak_in_flight 0 (bs_events st) \<le> 2"
proof -
  have t: "window_trace 500 2 three_reviews
      = [Issued (js ''r1''), Issued (js ''r2''), Settled, Delay 500, Issued (js ''r3''), Settled]"
    by (simp add: window_trace.simps three_reviews_def)
  from windows_bound_requests_in_flight [of 2 demo_engine llm_down three_reviews]
  obtain st where s: "batchAnalyzeReviewsFast_run demo_engine llm_down three_reviews 2 = Some st"
    "bs_events st = window_trace 500 (nat 2) three_reviews"
    "peak_in_flight 0 (bs_events st) \<le> nat 2"
    by auto
  then show ?thesis by (simp add: t)
qed


section \<open>Properties of the routes\<close>

lemma statuses_append: "statuses (xs @ ys) = statuses xs @ statuses ys"
  by (induction xs rule: statuses.induct) simp_all

lemma analysed_ids_append: "analysed_ids (xs @ ys) = analysed_ids xs @ analysed_ids ys"
  by (induction xs rule: analysed_ids.induct) simp_all

lemma save_loop_writes:
  "statuses (snd (save_loop inserts k results n ws)) = statuses ws
   \<and> analysed_ids (snd (save_loop inserts k results n ws)) = analysed_ids ws @ map item_id results"
  by (induction results arbitrary: k n ws)
     (auto simp: statuses_append analysed_ids_append split: insert_outcome.splits)

lemma batch_run_10:
  "(if ultra then batchAnalyzeReviewsUltraFast_run E llm revs 10
    else batchAnalyzeReviewsFast_run E llm revs 10)
   = Some \<lparr>bs_results = all_items (if ultra then analyzeReviewFast E else analyzeReview E) llm revs 0,
           bs_calls = length revs,
           bs_events = window_trace (if ultra then 200 else 500) 10 revs\<rparr>"
  by (simp add: batchAnalyzeReviewsFast_run_eq batchAnalyzeReviewsUltraFast_run_eq)

lemma candidates_Nil_iff: "(candidates lc rows = []) = (length (candidates lc rows) = 0)"
  by simp

lemma analysis_route_with_candidates:
  assumes "candidates lc rows \<noteq> []"
  shows "\<exists>run n saved.
           analysis_route ultra lc E llm (QueryRows (Some rows)) inserts = Some run
           \<and> writes run = [UpdateProject (Some processing) None None] @ saved
                           @ [UpdateProject (Some completed) None (Some n)]
           \<and> statuses saved = []
           \<and> analysed_ids saved = map review_id (candidates lc rows)
           \<and> resp_success (response run) = Some True
           \<and> llm_requests run = length (candidates lc rows)"
proof -
  let ?items = "all_items (if ultra then analyzeReviewFast E else analyzeReview E) llm
                  (map to_review_input (candidates lc rows)) 0"
  obtain n saved where s: "save_loop inserts 0 ?items 0 [] = (n, saved)"
    by (cases "save_loop inserts 0 ?items 0 []") blast
  from save_loop_writes [of inserts 0 ?items 0 "[]"] s
  have w: "statuses saved = []" "analysed_ids saved = map item_id ?items"
    by simp_all
  have ids: "map item_id ?items = map review_id (candidates lc rows)"
    by (simp add: all_items_ids to_review_input_def comp_def)
  have rows: "(length rows = 0) = False"
    using assms by (auto simp: candidates_def filterReviewsForAnalysis_def)
  have c: "(length (candidates lc rows) = 0) = False"
    using assms by simp
  have eq: "analysis_route ultra lc E llm (QueryRows (Some rows)) inserts
      = Some \<lparr>response =
                (if ultra then
                   json_response
                     \<lparr>resp_message :=
                        Some (js ''Successfully analyzed '' @ show_nat n @ js '' reviews''),
                      resp_reviewCount := Some n\<rparr>
                 else
                   json_response
                     \<lparr>resp_message :=
                        Some (js ''Successfully analyzed '' @ show_nat n
                              @ js '' reviews (skipped ''
                              @ show_nat (length (filter lacks_analysis rows)
                                          - length (candidates lc rows))
                              @ js '' low-value reviews for faster processing)''),
                      resp_reviewCount := Some n,
                      resp_skippedCount :=
                        Some (length (filter lacks_analysis rows) - length (candidates lc rows)),
                      resp_totalReviews := Some (length (filter lacks_analysis rows))\<rparr>),
              writes = [UpdateProject (Some processing) None None] @ saved
                       @ [UpdateProject (Some completed) None (Some n)],
              llm_requests = length (candidates lc rows)\<rparr>"
    unfolding analysis_route_def Let_def candidates_def [symmetric] batch_run_10
    by (simp only: reviews_query.case option.case rows c if_False batch_state.simps s prod.case
        length_map)
  show ?thesis
    unfolding eq using w ids by (auto simp: json_response_def)
qed

lemma analysis_route_without_candidates:
  assumes "candidates lc rows = []"
  shows "analysis_route ultra lc E llm (QueryRows (Some rows)) inserts
     = Some \<lparr>response =
               (if rows = []
                then json_response\<lparr>resp_message := Some (js ''No reviews found''),
                                   resp_reviewCount := Some 0\<rparr>
                else json_response
                       \<lparr>resp_message :=
                          Some (js ''All '' @ show_nat (length (filter lacks_analysis rows))
                                @ js '' reviews already analyzed or filtered out''),
                        resp_reviewCount := Some 0,
                        resp_skipped := Some (length (filter lacks_analysis rows))\<rparr>),
             writes = [], llm_requests = 0\<rparr>"
  unfolding analysis_route_def Let_def candidates_def [symmetric]
  using assms by (cases "rows = []") simp_all


text \<open>
  Claim C3, amended. A project created with a URL is first set to processing, then to
  completed if the scrape reports success and to error otherwise. An analysis run that has
  at least one candidate review, that is, a review without an analysis that passes the
  ingestion filter, first sets the project to processing and, after the batch and the
  saving of its results, to completed, however many analyses were saved. An analysis run
  without a candidate returns without writing a status.
\<close>

theorem project_status_transitions:
  "(truthy_string (req_name req) \<and> insert_ok \<and> truthy_string (req_googleUrl req) \<longrightarrow>
      statuses (writes (createProjectRoute req insert_ok scrapingResult))
        = [processing, if success scrapingResult then completed else failed])
   \<and> (candidates lc rows \<noteq> [] \<longrightarrow>
        (\<exists>run n saved.
            analysis_route ultra lc E llm (QueryRows (Some rows)) inserts = Some run
            \<and> writes run = [UpdateProject (Some processing) None None] @ saved
                            @ [UpdateProject (Some completed) None (Some n)]
            \<and> statuses (writes run) = [processing, completed]))
   \<and> (candidates lc rows = [] \<longrightarrow>
        (\<exists>run. analysis_route ultra lc E llm (QueryRows (Some rows)) inserts = Some run
               \<and> writes run = []))"
proof (intro conjI impI)
  assume "truthy_string (req_name req) \<and> insert_ok \<and> truthy_string (req_googleUrl req)"
  then show "statuses (writes (createProjectRoute req insert_ok scrapingResult))
        = [processing, if success scrapingResult then completed else failed]"
    by (simp add: createProjectRoute_def Let_def)
next
  assume "candidates lc rows \<noteq> []"
  from analysis_route_with_candidates [OF this, of ultra E llm inserts]
  obtain run n saved where r:
    "analysis_route ultra lc E llm (QueryRows (Some rows)) inserts = Some run"
    "writes run = [UpdateProject (Some processing) None None] @ saved
                  @ [UpdateProject (Some completed) None (Some n)]"
    "statuses saved = []"
    by blast
  from r(2,3) have "statuses (writes run) = [processing, completed]"
    by (simp add: statuses_append)
  with r(1,2) show "\<exists>run n saved.
            analysis_route ultra lc E llm (QueryRows (Some rows)) inserts = Some run
            \<and> writes run = [UpdateProject (Some processing) None None] @ saved
                            @ [UpdateProject (Some completed) None (Some n)]
            \<and> statuses (writes run) = [processing, completed]"
    by blast
next
  assume "candidates lc rows = []"
  from analysis_route_without_candidates [OF this, of ultra E llm inserts]
  show "\<exists>run. analysis_route ultra lc E llm (QueryRows (Some rows)) inserts = Some run
               \<and> writes run = []"
    by simp
qed

lemma candidates_analysed_short: "candidates ascii_toLowerCase [analysed_row, short_row] = []"
  by (simp add: candidates_def filterReviewsForAnalysis_def keep_review_def lowered_text_def
      lacks_analysis_def analysed_row_def short_row_def ascii_toLowerCase_def js_def)

lemma candidates_with_fresh:
  "candidates ascii_toLowerCase [analysed_row, short_row, fresh_row] = [fresh_row]"
  by (simp add: candidates_def filterReviewsForAnalysis_def keep_review_def lowered_text_def
      lacks_analysis_def analysed_row_def short_row_def fresh_row_def ascii_toLowerCase_def
      js_def spamPatterns_def is_a_z_def)

text \<open>
  Claim C3 as stated fails: the analysis of a project whose reviews are analysed already
  or too short responds with success and leaves the status as it was; it sets neither
  processing nor completed.
\<close>

theorem project_status_counterexample:
  "map_option (\<lambda>run. (resp_success (response run), statuses (writes run)))
     (analyzeProjectRoute ascii_toLowerCase demo_engine llm_down
        (QueryRows (Some [analysed_row, short_row])) all_saved)
   = Some (Some True, [])"
  using analysis_route_without_candidates [OF candidates_analysed_short, of False demo_engine
      llm_down all_saved]
  by (simp add: analyzeProjectRoute_def json_response_def)

text \<open>
  Claim C3, amended, on a project with one candidate review, and on a project created
  with a URL whose scrape fails.
\<close>

theorem project_status_transitions_witness:
  "map_option (\<lambda>run. statuses (writes run))
     (analyzeProjectRoute ascii_toLowerCase demo_engine llm_down
        (QueryRows (Some [analysed_row, short_row, fresh_row])) all_saved)
     = Some [processing, completed]
   \<and> statuses (writes (createProjectRoute
                          \<lparr>req_name = Some (js ''Cafe''), req_googleUrl = Some (js ''https://maps.google.com/x'')\<rparr>
                          True places_failed))
     = [processing, failed]"
proof -
  have c: "candidates ascii_toLowerCase [analysed_row, short_row, fresh_row] \<noteq> []"
    by (simp add: candidates_with_fresh)
  have t: "truthy_string (Some (js ''Cafe''))" "truthy_string (Some (js ''https://maps.google.com/x''))"
    by (simp_all add: truthy_string_def js_def)
  from project_status_transitions [of
      "\<lparr>req_name = Some (js ''Cafe''), req_googleUrl = Some (js ''https://maps.google.com/x'')\<rparr>"
      True places_failed ascii_toLowerCase "[analysed_row, short_row, fresh_row]" False
      demo_engine llm_down all_saved]
  show ?thesis using c t by (auto simp: analyzeProjectRoute_def places_failed_def)
qed

text \<open>
  Claim C9, amended. When no review is a candidate, because every review has an
  analysis or the ingestion filter removes all that have none, the analysis responds
  with success and \<open>reviewCount: 0\<close>, sends no request to the model and writes nothing.
  For a project without reviews the message is \<open>No reviews found\<close>; otherwise it is the
  one text \<open>All N reviews already analyzed or filtered out\<close>, and \<open>skipped\<close> is \<open>N\<close>, where
  \<open>N\<close> is the number of reviews without an analysis, all of which were filtered out. In
  every run the requests to the model and the insertions of analyses are those of the
  candidates, which all lack an analysis.
\<close>

theorem rerun_analysis_without_candidates:
  "(candidates lc rows = [] \<longrightarrow>
      (\<exists>run. analysis_route ultra lc E llm (QueryRows (Some rows)) inserts = Some run
             \<and> resp_success (response run) = Some True
             \<and> resp_reviewCount (response run) = Some 0
             \<and> llm_requests run = 0 \<and> writes run = []
             \<and> (rows = [] \<longrightarrow>
                  resp_message (response run) = Some (js ''No reviews found'')
                  \<and> resp_skipped (response run) = None)
             \<and> (rows \<noteq> [] \<longrightarrow>
                  resp_message (response run)
                    = Some (js ''All '' @ show_nat (length (filter lacks_analysis rows))
                            @ js '' reviews already analyzed or filtered out'')
                  \<and> resp_skipped (response run) = Some (length (filter lacks_analysis rows)))))
   \<and> (\<exists>run. analysis_route ultra lc E llm (QueryRows (Some rows)) inserts = Some run
             \<and> llm_requests run = length (candidates lc rows)
             \<and> analysed_ids (writes run) = map review_id (candidates lc rows)
             \<and> list_all lacks_analysis (candidates lc rows))"
proof -
  have lack: "list_all lacks_analysis (candidates lc rows)"
    by (simp add: candidates_def filterReviewsForAnalysis_def list_all_iff)
  have first: "candidates lc rows = [] \<Longrightarrow>
      (\<exists>run. analysis_route ultra lc E llm (QueryRows (Some rows)) inserts = Some run
             \<and> resp_success (response run) = Some True
             \<and> resp_reviewCount (response run) = Some 0
             \<and> llm_requests run = 0 \<and> writes run = []
             \<and> (rows = [] \<longrightarrow>
                  resp_message (response run) = Some (js ''No reviews found'')
                  \<and> resp_skipped (response run) = None)
             \<and> (rows \<noteq> [] \<longrightarrow>
                  resp_message (response run)
                    = Some (js ''All '' @ show_nat (length (filter lacks_analysis rows))
                            @ js '' reviews already analyzed or filtered out'')
                  \<and> resp_skipped (response run) = Some (length (filter lacks_analysis rows))))"
    using analysis_route_without_candidates [of lc rows ultra E llm inserts]
    by (simp add: json_response_def del: length_0_conv)
  have second: "\<exists>run. analysis_route ultra lc E llm (QueryRows (Some rows)) inserts = Some run
             \<and> llm_requests run = length (candidates lc rows)
             \<and> analysed_ids (writes run) = map review_id (candidates lc rows)
             \<and> list_all lacks_analysis (candidates lc rows)"
  proof (cases "candidates lc rows = []")
    case True
    from analysis_route_without_candidates [OF this, of ultra E llm inserts] True lack
    show ?thesis by simp
  next
    case False
    from analysis_route_with_candidates [OF this, of ultra E llm inserts]
    obtain run n saved where r:
      "analysis_route ultra lc E llm (QueryRows (Some rows)) inserts = Some run"
      "writes run = [UpdateProject (Some processing) None None] @ saved
                    @ [UpdateProject (Some completed) None (Some n)]"
      "analysed_ids saved = map review_id (candidates lc rows)"
      "llm_requests run = length (candidates lc rows)"
      by blast
    from r(2,3) have "analysed_ids (writes run) = map review_id (candidates lc rows)"
      by (simp add: analysed_ids_append)
    with r(1,4) lack show ?thesis by blast
  qed
  from first second show ?thesis by blast
qed

text \<open>
  Claim C9 as stated fails: the message does not tell the reviews already analysed from
  those filtered out. A project with one review, too short to analyse, and a project
  with one analysed review and the same short review get the same response, with the
  message \<open>All 1 reviews already analyzed or filtered out\<close>; a project whose only review
  is analysed gets the same text with 0 for 1, though nothing was filtered out.
\<close>

theorem rerun_analysis_counterexample:
  "analyzeProjectRoute ascii_toLowerCase demo_engine llm_down
       (QueryRows (Some [short_row])) all_saved
     = analyzeProjectRoute ascii_toLowerCase demo_engine llm_down
         (QueryRows (Some [analysed_row, short_row])) all_saved
   \<and> map_option (\<lambda>run. (resp_message (response run), resp_skipped (response run)))
       (analyzeProjectRoute ascii_toLowerCase demo_engine llm_down
          (QueryRows (Some [analysed_row, short_row])) all_saved)
     = Some (Some (js ''All 1 reviews already analyzed or filtered out''), Some 1)
   \<and> map_option (\<lambda>run. (resp_message (response run), resp_skipped (response run)))
       (analyzeProjectRoute ascii_toLowerCase demo_engine llm_down
          (QueryRows (Some [analysed_row])) all_saved)
     = Some (Some (js ''All 0 reviews already analyzed or filtered out''), Some 0)"
proof -
  have c: "candidates ascii_toLowerCase [short_row] = []"
    "candidates ascii_toLowerCase [analysed_row] = []"
    by (simp_all add: candidates_def filterReviewsForAnalysis_def keep_review_def
        lowered_text_def lacks_analysis_def analysed_row_def short_row_def
        ascii_toLowerCase_def js_def)
  have u: "lacks_analysis short_row" "\<not> lacks_analysis analysed_row"
    by (simp_all add: lacks_analysis_def analysed_row_def short_row_def)
  have n: "show_nat (Suc 0) = [0x31]" "show_nat 0 = [0x30]"
    by (simp_all add: show_nat.simps)
  show ?thesis
    unfolding analyzeProjectRoute_def
      analysis_route_without_candidates [OF c(1)]
      analysis_route_without_candidates [OF c(2)]
      analysis_route_without_candidates [OF candidates_analysed_short]
    by (simp add: u n json_response_def js_def)
qed

text \<open>
  Claim C9, amended, on a project whose reviews are analysed already or too short, and
  on one with a further review to analyse.
\<close>

theorem rerun_analysis_without_candidates_witness:
  "map_option (\<lambda>run. (resp_reviewCount (response run), resp_skipped (response run),
                       llm_requests run, writes run))
     (analyzeProjectRoute ascii_toLowerCase demo_engine llm_down
        (QueryRows (Some [analysed_row, short_row])) all_saved)
     = Some (Some 0, Some 1, 0, [])
   \<and> map_option (\<lambda>run. (llm_requests run, analysed_ids (writes run)))
       (analyzeProjectRoute ascii_toLowerCase demo_engine llm_down
          (QueryRows (Some [analysed_row, short_row, fresh_row])) all_saved)
     = Some (1, [js ''r3''])"
proof -
  have u: "length (filter lacks_analysis [analysed_row, short_row]) = 1"
    by (simp add: lacks_analysis_def analysed_row_def short_row_def)
  from rerun_analysis_without_candidates [of ascii_toLowerCase "[analysed_row, short_row]"
      False demo_engine llm_down all_saved]
  have a: "map_option (\<lambda>run. (resp_reviewCount (response run), resp_skipped (response run),
                       llm_requests run, writes run))
     (analyzeProjectRoute ascii_toLowerCase demo_engine llm_down
        (QueryRows (Some [analysed_row, short_row])) all_saved)
     = Some (Some 0, Some 1, 0, [])"
    using candidates_analysed_short u by (auto simp: analyzeProjectRoute_def)
  from rerun_analysis_without_candidates [of ascii_toLowerCase
      "[analysed_row, short_row, fresh_row]" False demo_engine llm_down all_saved]
  obtain run where r:
    "analysis_route False ascii_toLowerCase demo_engine llm_down
       (QueryRows (Some [analysed_row, short_row, fresh_row])) all_saved = Some run"
    "llm_requests run = length (candidates ascii_toLowerCase [analysed_row, short_row, fresh_row])"
    "analysed_ids (writes run)
       = map review_id (candidates ascii_toLowerCase [analysed_row, short_row, fresh_row])"
    by blast
  have i: "review_id fresh_row = js ''r3''" by (simp add: fresh_row_def)
  have b: "map_option (\<lambda>run. (llm_requests run, analysed_ids (writes run)))
       (analyzeProjectRoute ascii_toLowerCase demo_engine llm_down
          (QueryRows (Some [analysed_row, short_row, fresh_row])) all_saved)
     = Some (1, [js ''r3''])"
    using r unfolding candidates_with_fresh analyzeProjectRoute_def by (simp add: i)
  from a b show ?thesis by simp
qed


end
